theory Spec2Isabelle
  imports Complex_Main "HOL-Library.Log_Nat"
begin

chapter \<open>The location-input page of the rainwater-harvesting assessment form\<close>

text \<open>
  A shallow embedding of \<^verbatim>\<open>static/js/location-input.js\<close>: the script that binds a map
  marker, the latitude and longitude text fields, an address search box and a
  multi-step form, and that submits the collected values through a hidden form.

  The page is a record of the DOM values the script reads and writes, together with the
  effects it has on the outside world (alerts, console messages, network requests,
  submitted forms) and the two timers it owns. Every handler of the script is a function
  from page to page. An \<^verbatim>\<open>async\<close> function is split at its first \<^verbatim>\<open>await\<close>: the part that
  runs when the function is called, and the part that resumes when the awaited response
  has settled.
\<close>

section \<open>JavaScript numbers\<close>

text \<open>
  A Number is an IEEE 754 binary64 value. The finite ones are kept as the rational they
  denote; \<open>fl\<close> rounds an arbitrary rational to the nearest binary64 value (53-bit
  significand, ties to even, gradual underflow with least exponent -1022, overflow to
  infinity from 2^1024 on), so that an arithmetic operation returns its exact result,
  rounded. Negative zero is identified with zero: none of the operations the script
  applies to a number (\<^verbatim>\<open>*\<close>, \<^verbatim>\<open>>=\<close>, \<^verbatim>\<open><=\<close>, \<^verbatim>\<open>isNaN\<close>, \<^verbatim>\<open>||\<close>, \<^verbatim>\<open>toFixed\<close>) tells the two
  apart.
\<close>

datatype number = NaN | PosInf | NegInf | Fin rat

text \<open>\<open>ilog2 q\<close> is the binary exponent of a positive rational: the \<open>e\<close> with
  \<open>2 powi e \<le> q < 2 powi (e + 1)\<close> (lemma \<open>ilog2_unique\<close> below).\<close>

definition ilog2 :: "rat \<Rightarrow> int" where
  "ilog2 q = (if 1 \<le> q then bitlen \<lfloor>q\<rfloor> - 1 else - bitlen (\<lceil>1 / q\<rceil> - 1))"

definition round_half_even :: "rat \<Rightarrow> int" where
  "round_half_even x =
     (let f = \<lfloor>x\<rfloor>; d = x - of_int f
      in if d < 1 / 2 then f else if 1 / 2 < d then f + 1 else if even f then f else f + 1)"

definition fl_pos :: "rat \<Rightarrow> number" where
  "fl_pos q =
     (let e = max (ilog2 q) (- 1022);
          u = 2 powi (e - 52);
          r = of_int (round_half_even (q / u)) * u
      in if 2 ^ 1024 \<le> r then PosInf else Fin r)"

fun negate :: "number \<Rightarrow> number" where
  "negate NaN = NaN"
| "negate PosInf = NegInf"
| "negate NegInf = PosInf"
| "negate (Fin x) = Fin (- x)"

definition fl :: "rat \<Rightarrow> number" where
  "fl q = (if q = 0 then Fin 0 else if q < 0 then negate (fl_pos (- q)) else fl_pos q)"

text \<open>The comparison \<^verbatim>\<open>a <= b\<close> (and \<^verbatim>\<open>b >= a\<close>): false as soon as one side is NaN.\<close>

fun num_le :: "number \<Rightarrow> number \<Rightarrow> bool" where
  "num_le NaN _ = False"
| "num_le _ NaN = False"
| "num_le NegInf _ = True"
| "num_le _ PosInf = True"
| "num_le PosInf _ = False"
| "num_le _ NegInf = False"
| "num_le (Fin a) (Fin b) = (a \<le> b)"

definition isNaN :: "number \<Rightarrow> bool" where
  "isNaN x = (x = NaN)"

text \<open>The product \<^verbatim>\<open>a * b\<close>.\<close>

fun mul :: "number \<Rightarrow> number \<Rightarrow> number" where
  "mul NaN _ = NaN"
| "mul _ NaN = NaN"
| "mul (Fin a) (Fin b) = fl (a * b)"
| "mul (Fin a) PosInf = (if a = 0 then NaN else if 0 < a then PosInf else NegInf)"
| "mul (Fin a) NegInf = (if a = 0 then NaN else if 0 < a then NegInf else PosInf)"
| "mul PosInf (Fin b) = (if b = 0 then NaN else if 0 < b then PosInf else NegInf)"
| "mul NegInf (Fin b) = (if b = 0 then NaN else if 0 < b then NegInf else PosInf)"
| "mul PosInf PosInf = PosInf"
| "mul PosInf NegInf = NegInf"
| "mul NegInf PosInf = NegInf"
| "mul NegInf NegInf = PosInf"

text \<open>\<^verbatim>\<open>a || b\<close> on numbers (NaN and zero are falsy) and on strings (the empty string is
  falsy).\<close>

definition num_or :: "number \<Rightarrow> number \<Rightarrow> number" where
  "num_or a b = (if a = NaN \<or> a = Fin 0 then b else a)"

definition str_or :: "string \<Rightarrow> string \<Rightarrow> string" where
  "str_or a b = (if a = [] then b else a)"

section \<open>Strings, parsing and formatting\<close>

text \<open>
  A JavaScript string is a sequence of 16-bit code units. The model uses \<^typ>\<open>string\<close>,
  whose characters are the code units 0 to 255; every statement below about "every
  string" therefore ranges over the strings of that alphabet. The script inspects
  characters only by comparing them with ASCII literals, so a code unit above 255 would
  be treated like any other character that is neither a digit, a sign, a dot, an
  exponent mark nor white space (the white space of \<^verbatim>\<open>parseFloat\<close> and \<^verbatim>\<open>parseInt\<close> that
  lies above 255 is the one exception).
\<close>

definition is_ws :: "char \<Rightarrow> bool" where
  "is_ws c = (of_char c \<in> {9, 10, 11, 12, 13, 32, 160 :: nat})"

definition is_digit :: "char \<Rightarrow> bool" where
  "is_digit c = (48 \<le> (of_char c :: nat) \<and> (of_char c :: nat) \<le> 57)"

definition digit_val :: "char \<Rightarrow> nat" where
  "digit_val c = of_char c - 48"

definition is_hex_digit :: "char \<Rightarrow> bool" where
  "is_hex_digit c =
     (is_digit c \<or> (65 \<le> (of_char c :: nat) \<and> (of_char c :: nat) \<le> 70)
                 \<or> (97 \<le> (of_char c :: nat) \<and> (of_char c :: nat) \<le> 102))"

definition hex_val :: "char \<Rightarrow> nat" where
  "hex_val c =
     (if is_digit c then digit_val c
      else if (of_char c :: nat) \<le> 70 then of_char c - 55 else of_char c - 87)"

definition radix_value :: "nat \<Rightarrow> (char \<Rightarrow> nat) \<Rightarrow> string \<Rightarrow> nat" where
  "radix_value R val ds = foldl (\<lambda>a c. R * a + val c) 0 ds"

definition startsWith :: "string \<Rightarrow> string \<Rightarrow> bool" where
  "startsWith s p = (take (length p) s = p)"

fun strip_sign :: "string \<Rightarrow> bool \<times> string" where
  "strip_sign [] = (False, [])"
| "strip_sign (c # cs) =
     (if c = CHR ''-'' then (True, cs) else if c = CHR ''+'' then (False, cs) else (False, c # cs))"

definition scale10 :: "nat \<Rightarrow> int \<Rightarrow> rat" where
  "scale10 m k = (if 0 \<le> k then of_nat m * 10 ^ nat k else of_nat m / 10 ^ nat (- k))"

text \<open>
  \<^verbatim>\<open>parseFloat\<close>: leading white space is dropped, then the longest prefix that is a
  \<^verbatim>\<open>StrDecimalLiteral\<close> is read (an optional sign, then \<^verbatim>\<open>Infinity\<close> or digits with an
  optional fraction and an optional exponent; an exponent mark counts only when digits
  follow it). No such prefix gives NaN. The value is the decimal value rounded to
  binary64; ECMAScript lets an implementation drop digits after the twentieth, the model
  rounds correctly, as the current engines do.
\<close>

definition exponent_part :: "string \<Rightarrow> int" where
  "exponent_part r =
     (case r of
        [] \<Rightarrow> 0
      | c # cs \<Rightarrow>
          if c = CHR ''e'' \<or> c = CHR ''E'' then
            (let (neg, ds) = strip_sign cs; z = takeWhile is_digit ds
             in if z = [] then 0
                else if neg then - int (radix_value 10 digit_val z)
                else int (radix_value 10 digit_val z))
          else 0)"

definition unsigned_decimal :: "string \<Rightarrow> number" where
  "unsigned_decimal s =
     (if startsWith s ''Infinity'' then PosInf
      else
        let ip = takeWhile is_digit s; r1 = dropWhile is_digit s
        in case r1 of
             [] \<Rightarrow> if ip = [] then NaN else fl (of_nat (radix_value 10 digit_val ip))
           | c # r2 \<Rightarrow>
               if c = CHR ''.'' then
                 (let fp = takeWhile is_digit r2; r3 = dropWhile is_digit r2
                  in if ip = [] \<and> fp = [] then NaN
                     else fl (scale10 (radix_value 10 digit_val (ip @ fp))
                                (exponent_part r3 - int (length fp))))
               else if ip = [] then NaN
               else fl (scale10 (radix_value 10 digit_val ip) (exponent_part r1)))"

definition parseFloat :: "string \<Rightarrow> number" where
  "parseFloat s =
     (let (neg, r) = strip_sign (dropWhile is_ws s); v = unsigned_decimal r
      in if neg then negate v else v)"

text \<open>
  \<^verbatim>\<open>parseInt\<close> without a radix: leading white space and a sign are dropped, a prefix
  \<^verbatim>\<open>0x\<close> or \<^verbatim>\<open>0X\<close> selects radix 16, otherwise the radix is 10; the longest run of
  digits of that radix is read, and an empty run gives NaN.
\<close>

definition parseInt :: "string \<Rightarrow> number" where
  "parseInt s =
     (let (neg, r) = strip_sign (dropWhile is_ws s);
          hex = (startsWith r ''0x'' \<or> startsWith r ''0X'');
          z = (if hex then takeWhile is_hex_digit (drop 2 r) else takeWhile is_digit r);
          v = (if hex then radix_value 16 hex_val z else radix_value 10 digit_val z)
      in if z = [] then NaN else if neg then negate (fl (of_nat v)) else fl (of_nat v))"

definition digit_char :: "nat \<Rightarrow> char" where
  "digit_char d = ''0123456789'' ! d"

fun digits10 :: "nat \<Rightarrow> string" where
  "digits10 n =
     (if n < 10 then [digit_char n] else digits10 (n div 10) @ [digit_char (n mod 10)])"

declare digits10.simps [simp del]

text \<open>
  \<^verbatim>\<open>Number::toString\<close> for a finite value of at least 10^21, the only case in which
  \<^verbatim>\<open>toFixed\<close> falls back on it: the shortest digit string \<open>s\<close> (of \<open>k\<close> digits) with
  \<open>fl (s * 10 ^ (n - k)) = x\<close>, written in exponential notation. The search tries
  \<open>k = 1, 2, ...\<close> and, for each \<open>k\<close>, the two \<open>k\<close>-digit numbers around \<open>x\<close>.
\<close>

fun shortest_digits :: "nat \<Rightarrow> nat \<Rightarrow> rat \<Rightarrow> nat \<Rightarrow> nat \<times> nat" where
  "shortest_digits 0 k x n0 = (nat \<lfloor>x\<rfloor>, n0)"
| "shortest_digits (Suc fuel) k x n0 =
     (let p = 10 ^ (n0 - k);
          lo = nat \<lfloor>x / of_nat p\<rfloor>;
          hi = lo + 1;
          ok_lo = (10 ^ (k - 1) \<le> lo \<and> fl (of_nat (lo * p)) = Fin x);
          ok_hi = (fl (of_nat (hi * p)) = Fin x)
      in if ok_lo \<and> (\<not> ok_hi \<or> x - of_nat (lo * p) < of_nat (hi * p) - x
                          \<or> (x - of_nat (lo * p) = of_nat (hi * p) - x \<and> even lo))
         then (lo, n0)
         else if ok_hi then (if hi = 10 ^ k then (1, n0 + 1) else (hi, n0))
         else shortest_digits fuel (k + 1) x n0)"

definition Number_toString_large :: "rat \<Rightarrow> string" where
  "Number_toString_large x =
     (let n0 = length (digits10 (nat \<lfloor>x\<rfloor>));
          (s, n) = shortest_digits n0 1 x n0
      in case digits10 s of
           [] \<Rightarrow> []
         | d # ds \<Rightarrow> (if ds = [] then [d] else d # CHR ''.'' # ds) @ ''e+'' @ digits10 (n - 1))"

text \<open>
  \<^verbatim>\<open>x.toFixed(f)\<close> for \<open>0 \<le> f \<le> 100\<close>: with \<open>n\<close> the integer for which \<open>n / 10 ^ f\<close> is
  closest to \<open>\<bar>x\<bar>\<close> (the larger one of two), the digits of \<open>n\<close>, padded with zeros to
  at least \<open>f + 1\<close> digits, with a dot before the last \<open>f\<close> of them.
\<close>

definition fixed_point :: "nat \<Rightarrow> nat \<Rightarrow> string" where
  "fixed_point f n =
     (let m = (if n = 0 then ''0'' else digits10 n)
      in if f \<noteq> 0 then
           (let k = length m;
                m' = (if k \<le> f then replicate (f + 1 - k) CHR ''0'' @ m else m);
                k' = (if k \<le> f then f + 1 else k)
            in take (k' - f) m' @ ''.'' @ drop (k' - f) m')
         else m)"

fun toFixed :: "nat \<Rightarrow> number \<Rightarrow> string" where
  "toFixed f NaN = ''NaN''"
| "toFixed f PosInf = ''Infinity''"
| "toFixed f NegInf = ''-Infinity''"
| "toFixed f (Fin x) =
     (let s = (if x < 0 then ''-'' else ''''); y = \<bar>x\<bar>
      in if 10 ^ 21 \<le> y then s @ Number_toString_large y
         else s @ fixed_point f (nat \<lfloor>y * 10 ^ f + 1 / 2\<rfloor>))"

declare toFixed.simps(4) [simp del]

text \<open>\<^verbatim>\<open>s.split(sep)\<close> for a one-character separator, and \<^verbatim>\<open>xs.join(sep)\<close>.\<close>

fun split_str :: "char \<Rightarrow> string \<Rightarrow> string list" where
  "split_str sep [] = [[]]"
| "split_str sep (c # cs) =
     (if c = sep then [] # split_str sep cs
      else (case split_str sep cs of
              [] \<Rightarrow> [[c]]
            | w # ws \<Rightarrow> (c # w) # ws))"

fun join_str :: "string \<Rightarrow> string list \<Rightarrow> string" where
  "join_str sep [] = []"
| "join_str sep [x] = x"
| "join_str sep (x # y # ys) = x @ sep @ join_str sep (y # ys)"

section \<open>The page\<close>

text \<open>
  Coordinates are the \<^verbatim>\<open>{lng, lat}\<close> objects of the map library; \<open>camera\<close> is the target of
  the last \<^verbatim>\<open>map.flyTo\<close>. The map library itself is not part of the script: the marker
  is the pair last given to \<^verbatim>\<open>marker.setLngLat\<close> (or left by a drag).
\<close>

record lnglat =
  lng :: number
  lat :: number

record camera =
  fly_center :: lnglat
  zoom :: nat
  pitch :: nat
  bearing :: nat

text \<open>
  A geocoding response, at the schema of the geocoding service: a body whose \<^verbatim>\<open>features\<close>
  member is absent (\<open>None\<close>) or a list of features, each with a \<^verbatim>\<open>place_name\<close>, a
  \<^verbatim>\<open>center\<close> and an optional \<^verbatim>\<open>context\<close> list of \<^verbatim>\<open>{id, text}\<close> entries. A response can also
  fail: \<^verbatim>\<open>fetch\<close> rejects, or the body is not JSON.
\<close>

record context_entry =
  entry_id :: string
  entry_text :: string

record feature =
  place_name :: string
  center :: lnglat
  context_entries :: "context_entry list option"

datatype rejection = FetchFailed | BodyNotJson

datatype response = Rejected rejection | Body "feature list option"

text \<open>
  The two requests the script sends with \<^verbatim>\<open>fetch\<close>:
  \<open>ReverseGeocode lng lat\<close> is the request for
  \<^verbatim>\<open>https://api.maptiler.com/geocoding/${lng},${lat}.json?key=...\<close> and
  \<open>ForwardGeocode input\<close> the one for
  \<^verbatim>\<open>https://api.maptiler.com/geocoding/${encodeURIComponent(input)}.json?key=...&country=IN&types=...&limit=5\<close>.
\<close>

datatype request = ReverseGeocode string string | ForwardGeocode string

text \<open>The outcome of \<^verbatim>\<open>navigator.geolocation.getCurrentPosition\<close>; a position carries
  \<^verbatim>\<open>coords.longitude\<close> and \<^verbatim>\<open>coords.latitude\<close>.\<close>

datatype geo_result = Unsupported | PermissionDenied | Position number number

text \<open>
  The values of the object \<^verbatim>\<open>dataToSubmit\<close>: strings, numbers, and, for a property found
  on \<^verbatim>\<open>Object.prototype\<close> rather than on the object itself, the inherited member of that
  name (a function or an object, hence truthy). The hidden inputs of the submitted form
  carry these values as they are assigned to \<^verbatim>\<open>input.value\<close>.
\<close>

datatype jsvalue = Str string | Num number | Inherited string

record hidden_input =
  input_type :: string
  input_name :: string
  input_value :: jsvalue

record form =
  form_method :: string
  form_action :: string
  form_display :: string
  form_inputs :: "hidden_input list"

text \<open>
  The page: the values of the form controls (named by their element ids; for the two
  radio groups the value of the checked button, if any; for the check boxes
  \<^verbatim>\<open>existing_water_sources\<close> the values of the checked ones), the option values of the
  \<^verbatim>\<open>state\<close> drop-down, the marker and camera of the map, the suggestion list, the
  \<^verbatim>\<open>active\<close> class of the two sections, the submit button, the effects so far, and the
  clock (in milliseconds) with the pending timer of each of the two debounced functions.
\<close>

record page =
  latitude :: string
  longitude :: string
  coords :: string
  address :: string
  pincode :: string
  state_options :: "string list"
  state :: string
  district :: string
  town :: string
  fullName :: string
  contactNumber :: string
  householdSize :: string
  propertyType :: "string option"
  roofType :: "string option"
  rooftopArea :: string
  openSpaceArea :: string
  budgetRange :: string
  intendedUse :: string
  storageMonths :: string
  waterSources :: "string list"
  marker :: lnglat
  view :: camera
  suggestions :: "feature list"
  suggestions_hidden :: bool
  locationSection_active :: bool
  dataSection_active :: bool
  submitBtn_innerHTML :: string
  submitBtn_disabled :: bool
  alerts :: "string list"
  console :: "(string \<times> rejection) list"
  network :: "request list"
  body_forms :: "form list"
  submitted :: "form list"
  now :: nat
  geo_timeout :: "(nat \<times> lnglat) option"
  search_timeout :: "(nat \<times> string) option"

section \<open>Timers and the debounce utility\<close>

text \<open>
  The script creates timers only through \<^verbatim>\<open>debounce\<close>, whose closure keeps one timer id
  and clears it before it sets the next: each debounced function has at most one pending
  timer, kept as its due time and the arguments of the pending call.
\<close>

definition setTimeout :: "nat \<Rightarrow> nat \<Rightarrow> 'a \<Rightarrow> (nat \<times> 'a) option" where
  "setTimeout clock delay args = Some (clock + delay, args)"

definition clearTimeout :: "(nat \<times> 'a) option \<Rightarrow> (nat \<times> 'a) option" where
  "clearTimeout timeout = None"

definition debounce :: "nat \<Rightarrow> nat \<Rightarrow> 'a \<Rightarrow> (nat \<times> 'a) option \<Rightarrow> (nat \<times> 'a) option" where
  "debounce delay clock args timeout =
     (let cleared = clearTimeout timeout in setTimeout clock delay args)"

section \<open>Handlers\<close>

definition indianStates :: "string list" where
  "indianStates =
     [''Andaman and Nicobar Islands'', ''Andhra Pradesh'', ''Arunachal Pradesh'', ''Assam'',
      ''Bihar'', ''Chandigarh'', ''Chhattisgarh'',
      ''Dadra and Nagar Haveli and Daman and Diu'', ''Delhi'', ''Goa'', ''Gujarat'',
      ''Haryana'', ''Himachal Pradesh'', ''Jammu and Kashmir'', ''Jharkhand'', ''Karnataka'',
      ''Kerala'', ''Ladakh'', ''Lakshadweep'', ''Madhya Pradesh'', ''Maharashtra'',
      ''Manipur'', ''Meghalaya'', ''Mizoram'', ''Nagaland'', ''Odisha'', ''Puducherry'',
      ''Punjab'', ''Rajasthan'', ''Sikkim'', ''Tamil Nadu'', ''Telangana'', ''Tripura'',
      ''Uttar Pradesh'', ''Uttarakhand'', ''West Bengal'']"

text \<open>Assigning to the \<^verbatim>\<open>value\<close> of a drop-down selects the option with that value; when
  there is none, no option is selected and the value reads as the empty string.\<close>

definition select_value :: "string list \<Rightarrow> string \<Rightarrow> string" where
  "select_value options v = (if v \<in> set options then v else [])"

definition updateTo3DView :: "lnglat \<Rightarrow> page \<Rightarrow> page" where
  "updateTo3DView lngLat p =
     p\<lparr>view := \<lparr>fly_center = \<lparr>lng = lng lngLat, lat = lat lngLat\<rparr>,
                   zoom = 18, pitch = 60, bearing = 90\<rparr>\<rparr>"

text \<open>\<^verbatim>\<open>updateFromMarker\<close> up to its first \<^verbatim>\<open>await\<close>: the fields are written and the request
  is sent.\<close>

definition updateFromMarker :: "lnglat \<Rightarrow> page \<Rightarrow> page" where
  "updateFromMarker lngLat p =
     (let lat_s = toFixed 5 (lat lngLat);
          lng_s = toFixed 5 (lng lngLat)
      in p\<lparr>latitude := lat_s,
             longitude := lng_s,
             coords := ''Latitude: '' @ lat_s @ '', Longitude: '' @ lng_s,
             network := network p @ [ReverseGeocode lng_s lat_s]\<rparr>)"

text \<open>\<^verbatim>\<open>topResult.context?.find(c => c.id.startsWith(kind))?.text || ''\<close>\<close>

definition context_text :: "feature \<Rightarrow> string \<Rightarrow> string" where
  "context_text topResult kind =
     (case context_entries topResult of
        None \<Rightarrow> []
      | Some cs \<Rightarrow>
          (case find (\<lambda>c. startsWith (entry_id c) kind) cs of
             None \<Rightarrow> []
           | Some c \<Rightarrow> str_or (entry_text c) []))"

text \<open>\<^verbatim>\<open>updateFromMarker\<close> from the point where the response has settled.\<close>

definition updateFromMarker_resume :: "response \<Rightarrow> page \<Rightarrow> page" where
  "updateFromMarker_resume r p =
     (case r of
        Rejected error \<Rightarrow> p\<lparr>console := console p @ [(''Reverse geocoding failed:'', error)]\<rparr>
      | Body None \<Rightarrow> p
      | Body (Some []) \<Rightarrow> p
      | Body (Some (topResult # _)) \<Rightarrow>
          p\<lparr>address := place_name topResult,
            pincode := context_text topResult ''postcode'',
            state := select_value (state_options p) (context_text topResult ''region''),
            district := context_text topResult ''district'',
            town := context_text topResult ''place''\<rparr>)"

definition debouncedUpdateFromMarker :: "lnglat \<Rightarrow> page \<Rightarrow> page" where
  "debouncedUpdateFromMarker lngLat p =
     p\<lparr>geo_timeout := debounce 500 (now p) lngLat (geo_timeout p)\<rparr>"

definition updateMarkerFromInputs :: "page \<Rightarrow> page" where
  "updateMarkerFromInputs p =
     (let la = parseFloat (latitude p);
          lo = parseFloat (longitude p)
      in if \<not> isNaN la \<and> \<not> isNaN lo \<and> num_le (Fin (- 90)) la \<and> num_le la (Fin 90)
            \<and> num_le (Fin (- 180)) lo \<and> num_le lo (Fin 180)
         then
           (let lngLat = \<lparr>lng = lo, lat = la\<rparr>
            in debouncedUpdateFromMarker lngLat
                 (p\<lparr>marker := lngLat,
                    coords := ''Latitude: '' @ toFixed 5 la @ '', Longitude: '' @ toFixed 5 lo\<rparr>))
         else p)"

text \<open>The handlers of the map click, of the end of a marker drag (the marker is where the
  drag left it) and of the geolocation button.\<close>

definition map_click :: "lnglat \<Rightarrow> page \<Rightarrow> page" where
  "map_click lngLat p = updateFromMarker lngLat (updateTo3DView lngLat (p\<lparr>marker := lngLat\<rparr>))"

definition marker_dragend :: "page \<Rightarrow> page" where
  "marker_dragend p = (let lngLat = marker p in updateFromMarker lngLat (updateTo3DView lngLat p))"

definition geolocation_click :: "geo_result \<Rightarrow> page \<Rightarrow> page" where
  "geolocation_click g p =
     (case g of
        Unsupported \<Rightarrow>
          p\<lparr>alerts := alerts p @ [''Geolocation is not supported by your browser.'']\<rparr>
      | PermissionDenied \<Rightarrow>
          p\<lparr>alerts := alerts p @ [''Geolocation not available or permission denied.'']\<rparr>
      | Position longitude_v latitude_v \<Rightarrow>
          (let lngLat = \<lparr>lng = longitude_v, lat = latitude_v\<rparr>
           in updateFromMarker lngLat (updateTo3DView lngLat (p\<lparr>marker := lngLat\<rparr>))))"

text \<open>The function wrapped by \<^verbatim>\<open>debouncedAddressSearch\<close>, up to its first \<^verbatim>\<open>await\<close>, and
  from the point where the response has settled; then the debounced wrapper and the click
  on the \<open>i\<close>-th suggestion.\<close>

definition address_search :: "string \<Rightarrow> page \<Rightarrow> page" where
  "address_search input p =
     (if length input < 3 then p\<lparr>suggestions_hidden := True\<rparr>
      else p\<lparr>network := network p @ [ForwardGeocode input]\<rparr>)"

definition address_search_resume :: "response \<Rightarrow> page \<Rightarrow> page" where
  "address_search_resume r p =
     (case r of
        Rejected error \<Rightarrow> p\<lparr>console := console p @ [(''Address search failed:'', error)]\<rparr>
      | Body None \<Rightarrow> p\<lparr>suggestions := [], suggestions_hidden := True\<rparr>
      | Body (Some []) \<Rightarrow> p\<lparr>suggestions := [], suggestions_hidden := True\<rparr>
      | Body (Some (f # fs)) \<Rightarrow> p\<lparr>suggestions := f # fs, suggestions_hidden := False\<rparr>)"

definition debouncedAddressSearch :: "string \<Rightarrow> page \<Rightarrow> page" where
  "debouncedAddressSearch input p =
     p\<lparr>search_timeout := debounce 300 (now p) input (search_timeout p)\<rparr>"

definition suggestion_click :: "nat \<Rightarrow> page \<Rightarrow> page" where
  "suggestion_click i p =
     (if i < length (suggestions p) then
        (let lngLat = center (suggestions p ! i);
             q = updateFromMarker lngLat (updateTo3DView lngLat (p\<lparr>marker := lngLat\<rparr>))
         in q\<lparr>suggestions_hidden := True\<rparr>)
      else p)"

subsection \<open>Section navigation\<close>

definition nextSection :: "page \<Rightarrow> page" where
  "nextSection p =
     (if latitude p = [] \<or> longitude p = []
      then p\<lparr>alerts := alerts p @ [''Please provide valid coordinates before proceeding.'']\<rparr>
      else p\<lparr>locationSection_active := False, dataSection_active := True\<rparr>)"

definition previousSection :: "page \<Rightarrow> page" where
  "previousSection p = p\<lparr>dataSection_active := False, locationSection_active := True\<rparr>"

subsection \<open>Submission\<close>

text \<open>
  \<^verbatim>\<open>submitData\<close> first copies the field values into \<^verbatim>\<open>formData\<close>; nothing changes the
  fields before they are used, so the model reads them from the page. The loop over
  \<^verbatim>\<open>requiredFields\<close> returns at the first empty field.
\<close>

definition requiredFields :: "page \<Rightarrow> (string \<times> string) list" where
  "requiredFields p =
     [(latitude p, ''Latitude''),
      (longitude p, ''Longitude''),
      (fullName p, ''Full Name''),
      (rooftopArea p, ''Rooftop Area''),
      (openSpaceArea p, ''Open Space Area'')]"

fun first_missing :: "(string \<times> string) list \<Rightarrow> string option" where
  "first_missing [] = None"
| "first_missing ((field, name) # rest) = (if field = [] then Some name else first_missing rest)"

definition household_size :: "string \<Rightarrow> number" where
  "household_size householdSize_v =
     (case split_str CHR ''-'' (str_or householdSize_v ''0'') of
        [] \<Rightarrow> Fin 0
      | first # _ \<Rightarrow> num_or (parseInt first) (Fin 0))"

definition sqft_to_sqm :: number where
  "sqft_to_sqm = fl (92903 / 1000000)"

text \<open>\<^verbatim>\<open>(parseFloat(rooftopArea || 0) * 0.092903).toFixed(2)\<close>: for an empty field
  \<^verbatim>\<open>parseFloat\<close> is given the number 0, which it reads as the string \<^verbatim>\<open>0\<close>. The factor is
  the binary64 value of the literal.\<close>

definition rooftop_area :: "string \<Rightarrow> string" where
  "rooftop_area rooftopArea_v = toFixed 2 (mul (parseFloat (str_or rooftopArea_v ''0'')) sqft_to_sqm)"

text \<open>
  The look-up \<^verbatim>\<open>{'none': 0, 'small': 10, 'medium': 60, 'large': 150}[key]\<close> finds the own
  properties of the object literal first and then the properties the literal inherits
  from \<^verbatim>\<open>Object.prototype\<close>; only a key found in neither gives \<^verbatim>\<open>undefined\<close> (\<open>None\<close>).
\<close>

definition open_space_table :: "(string \<times> nat) list" where
  "open_space_table = [(''none'', 0), (''small'', 10), (''medium'', 60), (''large'', 150)]"

definition Object_prototype_properties :: "string list" where
  "Object_prototype_properties =
     [''constructor'', ''__defineGetter__'', ''__defineSetter__'', ''hasOwnProperty'',
      ''__lookupGetter__'', ''__lookupSetter__'', ''isPrototypeOf'', ''propertyIsEnumerable'',
      ''toString'', ''valueOf'', ''__proto__'', ''toLocaleString'']"

definition get_property :: "(string \<times> nat) list \<Rightarrow> string \<Rightarrow> jsvalue option" where
  "get_property obj key =
     (case map_of obj key of
        Some n \<Rightarrow> Some (Num (Fin (of_nat n)))
      | None \<Rightarrow> if key \<in> set Object_prototype_properties then Some (Inherited key) else None)"

fun value_or :: "jsvalue option \<Rightarrow> jsvalue \<Rightarrow> jsvalue" where
  "value_or None d = d"
| "value_or (Some (Num n)) d = (if n = NaN \<or> n = Fin 0 then d else Num n)"
| "value_or (Some (Str s)) d = (if s = [] then d else Str s)"
| "value_or (Some (Inherited k)) d = Inherited k"

definition open_space_area :: "string \<Rightarrow> jsvalue" where
  "open_space_area openSpaceArea_v =
     value_or (get_property open_space_table openSpaceArea_v) (Num (Fin 0))"

definition checked_or :: "string option \<Rightarrow> string \<Rightarrow> string" where
  "checked_or checked d = (case checked of None \<Rightarrow> d | Some v \<Rightarrow> str_or v d)"

definition dataToSubmit :: "page \<Rightarrow> (string \<times> jsvalue) list" where
  "dataToSubmit p =
     [(''name'', Str (fullName p)),
      (''location_name'', Str (address p)),
      (''user_lat'', Str (latitude p)),
      (''user_lon'', Str (longitude p)),
      (''roof_type'', Str (checked_or (roofType p) ''mixed'')),
      (''household_size'', Num (household_size (householdSize p))),
      (''rooftop_area'', Str (rooftop_area (rooftopArea p))),
      (''open_space_area'', open_space_area (openSpaceArea p)),
      (''property_type'', Str (checked_or (propertyType p) ''Residential'')),
      (''existing_water_sources'', Str (join_str '','' (waterSources p))),
      (''budget_preference'', Str (budgetRange p)),
      (''intended_use'', Str (intendedUse p))]"

text \<open>The loop \<^verbatim>\<open>for (const key in dataToSubmit)\<close>, with its own-property guard, visits
  the keys of the literal in the order in which they are written and adds one hidden
  input for each.\<close>

definition hidden_form :: "(string \<times> jsvalue) list \<Rightarrow> form" where
  "hidden_form entries =
     \<lparr>form_method = ''POST'', form_action = ''/submit_form'', form_display = ''none'',
      form_inputs =
        map (\<lambda>(key, v). \<lparr>input_type = ''hidden'', input_name = key, input_value = v\<rparr>) entries\<rparr>"

definition submitData :: "page \<Rightarrow> page" where
  \<open>submitData p =
     (case first_missing (requiredFields p) of
        Some name \<Rightarrow> p\<lparr>alerts := alerts p @ [''Please provide '' @ name]\<rparr>
      | None \<Rightarrow>
          (let form = hidden_form (dataToSubmit p)
           in p\<lparr>submitBtn_innerHTML :=
                    ''<i class="fas fa-spinner fa-spin mr-2"></i>Processing...'',
                  submitBtn_disabled := True,
                  body_forms := body_forms p @ [form],
                  submitted := submitted p @ [form]\<rparr>))\<close>

section \<open>Events and time\<close>

text \<open>
  The user events that change the coordinate or the search text. \<open>advance t\<close> lets the
  clock reach \<open>t\<close> and runs the timers that are due by then, the one due first first (of
  two timers due at the same time the reverse-geocoding one was set earlier, its delay
  being the longer). \<open>run\<close> handles a list of time-stamped events in order.
\<close>

datatype event =
    MapClick lnglat
  | MarkerDragEnd lnglat
  | LatitudeInput string
  | LongitudeInput string
  | GeolocationClick geo_result
  | AddressInput string
  | SuggestionClick nat

fun dispatch :: "event \<Rightarrow> page \<Rightarrow> page" where
  "dispatch (MapClick lngLat) p = map_click lngLat p"
| "dispatch (MarkerDragEnd lngLat) p = marker_dragend (p\<lparr>marker := lngLat\<rparr>)"
| "dispatch (LatitudeInput v) p = updateMarkerFromInputs (p\<lparr>latitude := v\<rparr>)"
| "dispatch (LongitudeInput v) p = updateMarkerFromInputs (p\<lparr>longitude := v\<rparr>)"
| "dispatch (GeolocationClick g) p = geolocation_click g p"
| "dispatch (AddressInput v) p = debouncedAddressSearch v (p\<lparr>address := v\<rparr>)"
| "dispatch (SuggestionClick i) p = suggestion_click i p"

definition fire_geo :: "nat \<Rightarrow> page \<Rightarrow> page" where
  "fire_geo t p =
     (case geo_timeout p of
        None \<Rightarrow> p
      | Some (due, lngLat) \<Rightarrow>
          if due \<le> t then updateFromMarker lngLat (p\<lparr>geo_timeout := None\<rparr>) else p)"

definition fire_search :: "nat \<Rightarrow> page \<Rightarrow> page" where
  "fire_search t p =
     (case search_timeout p of
        None \<Rightarrow> p
      | Some (due, input) \<Rightarrow>
          if due \<le> t then address_search input (p\<lparr>search_timeout := None\<rparr>) else p)"

definition geo_due_first :: "page \<Rightarrow> bool" where
  "geo_due_first p =
     (case (geo_timeout p, search_timeout p) of
        (Some (dg, _), Some (ds, _)) \<Rightarrow> dg \<le> ds
      | _ \<Rightarrow> True)"

definition advance :: "nat \<Rightarrow> page \<Rightarrow> page" where
  "advance t p =
     (let q = (if geo_due_first p then fire_search t (fire_geo t p)
               else fire_geo t (fire_search t p))
      in q\<lparr>now := max t (now q)\<rparr>)"

fun run :: "(nat \<times> event) list \<Rightarrow> page \<Rightarrow> page" where
  "run [] p = p"
| "run ((t, e) # es) p = run es (dispatch e (advance t p))"

fun is_reverse :: "request \<Rightarrow> bool" where
  "is_reverse (ReverseGeocode _ _) = True"
| "is_reverse (ForwardGeocode _) = False"

definition reverse_calls :: "page \<Rightarrow> request list" where
  "reverse_calls p = filter is_reverse (network p)"

section \<open>Notions used to state the properties\<close>

text \<open>A valid coordinate pair: both numbers finite, the latitude in [-90, 90] and the
  longitude in [-180, 180].\<close>

definition valid_pair :: "number \<Rightarrow> number \<Rightarrow> bool" where
  "valid_pair la lo =
     (case (la, lo) of
        (Fin x, Fin y) \<Rightarrow> - 90 \<le> x \<and> x \<le> 90 \<and> - 180 \<le> y \<and> y \<le> 180
      | _ \<Rightarrow> False)"

definition typed_coordinate :: "page \<Rightarrow> lnglat" where
  "typed_coordinate p = \<lparr>lng = parseFloat (longitude p), lat = parseFloat (latitude p)\<rparr>"

fun coordinate_typed :: "event \<Rightarrow> page \<Rightarrow> bool" where
  "coordinate_typed (LatitudeInput v) p = valid_pair (parseFloat v) (parseFloat (longitude p))"
| "coordinate_typed (LongitudeInput v) p = valid_pair (parseFloat (latitude p)) (parseFloat v)"
| "coordinate_typed _ p = False"

fun typing_burst :: "nat \<Rightarrow> (nat \<times> event) list \<Rightarrow> page \<Rightarrow> bool" where
  "typing_burst t0 [] p = True"
| "typing_burst t0 ((t, e) # es) p =
     (t0 \<le> t \<and> t < t0 + 500 \<and> coordinate_typed e (advance t p)
      \<and> typing_burst t es (dispatch e (advance t p)))"

fun last_time :: "nat \<Rightarrow> (nat \<times> event) list \<Rightarrow> nat" where
  "last_time t0 [] = t0"
| "last_time t0 ((t, e) # es) = last_time t es"

definition reverse_call :: "lnglat \<Rightarrow> request" where
  "reverse_call lngLat = ReverseGeocode (toFixed 5 (lng lngLat)) (toFixed 5 (lat lngLat))"

text \<open>
  The rational a fixed-point numeral denotes: an optional sign, digits, and after one
  separator character the fraction digits.
\<close>

definition read_fixed :: "string \<Rightarrow> rat" where
  "read_fixed s =
     (let (neg, r) = strip_sign s;
          ip = takeWhile is_digit r;
          fp = drop (Suc (length ip)) r;
          v = of_nat (radix_value 10 digit_val ip)
                + of_nat (radix_value 10 digit_val fp) / 10 ^ length fp
      in if neg then - v else v)"

text \<open>Three concrete pages: the page as loaded, with empty fields, a page filled in, and
  a page with a coordinate in its two text fields.\<close>

definition example_page :: page where
  "example_page =
     \<lparr>latitude = [], longitude = [], coords = [], address = [], pincode = [],
      state_options = indianStates, state = [], district = [], town = [],
      fullName = [], contactNumber = [], householdSize = [],
      propertyType = None, roofType = None,
      rooftopArea = [], openSpaceArea = [], budgetRange = [], intendedUse = [],
      storageMonths = [], waterSources = [],
      marker = \<lparr>lng = fl (789629 / 10000), lat = fl (205937 / 10000)\<rparr>,
      view = \<lparr>fly_center = \<lparr>lng = fl (789629 / 10000), lat = fl (205937 / 10000)\<rparr>,
               zoom = 5, pitch = 0, bearing = 0\<rparr>,
      suggestions = [], suggestions_hidden = True,
      locationSection_active = True, dataSection_active = False,
      submitBtn_innerHTML = [], submitBtn_disabled = False,
      alerts = [], console = [], network = [], body_forms = [], submitted = [],
      now = 0, geo_timeout = None, search_timeout = None\<rparr>"

definition filled_page :: page where
  "filled_page =
     example_page\<lparr>latitude := ''12.97160'', longitude := ''77.59460'',
       address := ''MG Road, Bengaluru'', fullName := ''Asha'', householdSize := ''2-4'',
       rooftopArea := ''100'', openSpaceArea := ''small'', budgetRange := ''low'',
       intendedUse := ''domestic'', waterSources := [''borewell'', ''municipal'']\<rparr>"

definition typing_page :: page where
  "typing_page = example_page\<lparr>latitude := ''12'', longitude := ''77''\<rparr>"

text \<open>
  What a call of \<^verbatim>\<open>submitData\<close> posts under a key: the values of the inputs of that name in
  the forms the call submits (the forms submitted before the call are left out).
\<close>

definition posted :: "page \<Rightarrow> string \<Rightarrow> jsvalue list" where
  "posted p key =
     map input_value
       (filter (\<lambda>i. input_name i = key)
          (concat (map form_inputs (drop (length (submitted p)) (submitted (submitData p))))))"

text \<open>A feature as the geocoding service returns it, with two context entries of the kind
  \<^verbatim>\<open>place\<close> and none of the kind \<^verbatim>\<open>district\<close>.\<close>

definition example_feature :: feature where
  "example_feature =
     \<lparr>place_name = ''MG Road, Bengaluru, Karnataka 560001, India'',
      center = \<lparr>lng = Fin (155 / 2), lat = Fin 13\<rparr>,
      context_entries = Some
        [\<lparr>entry_id = ''place.101'', entry_text = ''Bengaluru''\<rparr>,
         \<lparr>entry_id = ''postcode.2'', entry_text = ''560001''\<rparr>,
         \<lparr>entry_id = ''region.29'', entry_text = ''Karnataka''\<rparr>,
         \<lparr>entry_id = ''place.7'', entry_text = ''Shivajinagar''\<rparr>,
         \<lparr>entry_id = ''country.1'', entry_text = ''India''\<rparr>]\<rparr>"

section \<open>Evaluating and bounding the rounding\<close>

lemma floor_rat_numeral_div [simp]:
  "\<lfloor>(numeral a :: rat) / numeral b\<rfloor> = numeral a div numeral b"
  using floor_divide_of_int_eq [of "numeral a" "numeral b", where ?'a = rat] by simp

lemma ceiling_rat_numeral_div [simp]:
  "\<lceil>(numeral a :: rat) / numeral b\<rceil> = - (- numeral a div numeral b)"
  using floor_divide_of_int_eq [of "- numeral a" "numeral b", where ?'a = rat]
  by (simp add: ceiling_def)

lemma bitlen_numeral [simp]:
  "bitlen (numeral w) = bitlen (numeral w div 2) + 1"
  by (subst compute_bitlen) simp

lemma bitlen_one [simp]: "bitlen 1 = 1"
  by (subst compute_bitlen) simp

lemma bitlen_unique:
  assumes "2 ^ n \<le> x" "x < 2 ^ Suc n"
  shows "bitlen x = int n + 1"
proof -
  have "(0::int) < 2 ^ n" by simp
  then have pos: "0 < x" using assms(1) by linarith
  have b: "2 ^ nat (bitlen x - 1) \<le> x \<and> x < 2 ^ nat (bitlen x)"
    using bitlen_bounds [OF pos] .
  have ge1: "1 \<le> bitlen x" using pos by (simp add: bitlen_alt_def)
  have "(2::int) ^ n < 2 ^ nat (bitlen x)" using assms(1) b by linarith
  then have 1: "n < nat (bitlen x)" by (rule power_less_imp_less_exp [rotated]) simp
  have "(2::int) ^ nat (bitlen x - 1) < 2 ^ Suc n" using assms(2) b by linarith
  then have 2: "nat (bitlen x - 1) < Suc n" by (rule power_less_imp_less_exp [rotated]) simp
  from 1 2 ge1 show ?thesis by linarith
qed

lemma ilog2_unique:
  assumes "2 powi e \<le> q" "q < 2 powi (e + 1)"
  shows "ilog2 q = e"
proof (cases "0 \<le> e")
  case True
  define n where "n = nat e"
  have e: "e = int n" using True by (simp add: n_def)
  have e1: "e + 1 = int (Suc n)" using e by simp
  have lo: "(2::rat) ^ n \<le> q" using assms(1) unfolding e by simp
  have hi: "q < 2 ^ Suc n" using assms(2) unfolding e1 power_int_of_nat .
  have "(1::rat) \<le> 2 ^ n" by simp
  then have q1: "1 \<le> q" using lo by linarith
  have "of_int (2 ^ n) \<le> q" using lo by simp
  then have a: "2 ^ n \<le> \<lfloor>q\<rfloor>" by (simp only: le_floor_iff)
  have "q < of_int (2 ^ Suc n)" using hi by simp
  then have b: "\<lfloor>q\<rfloor> < 2 ^ Suc n" by (simp only: floor_less_iff)
  show ?thesis using bitlen_unique [OF a b] q1 by (simp add: ilog2_def e)
next
  case False
  define n where "n = nat (- e - 1)"
  have e: "e = - int (Suc n)" using False by (simp add: n_def)
  have e1: "e + 1 = - int n" using e by simp
  have lo: "1 / 2 ^ Suc n \<le> q" using assms(1) unfolding e
    by (simp only: power_int_minus power_int_of_nat inverse_eq_divide)
  have hi: "q < 1 / 2 ^ n" using assms(2) unfolding e1
    by (simp only: power_int_minus power_int_of_nat inverse_eq_divide)
  have "(0::rat) < 1 / 2 ^ Suc n" by simp
  then have qpos: "0 < q" using lo by linarith
  have "1 / (2::rat) ^ n \<le> 1" by (simp add: divide_le_eq)
  then have q1: "\<not> 1 \<le> q" using hi by linarith
  have up: "1 / q \<le> 2 ^ Suc n"
    using lo qpos by (simp add: field_simps)
  have dn: "2 ^ n < 1 / q"
    using hi qpos by (simp add: field_simps)
  have "1 / q \<le> of_int (2 ^ Suc n)" using up by simp
  then have a: "\<lceil>1 / q\<rceil> \<le> 2 ^ Suc n" by (simp only: ceiling_le_iff)
  have "of_int (2 ^ n) < 1 / q" using dn by simp
  then have b: "2 ^ n < \<lceil>1 / q\<rceil>" by (simp only: less_ceiling_iff)
  have "bitlen (\<lceil>1 / q\<rceil> - 1) = int n + 1"
    using a b by (intro bitlen_unique) auto
  then show ?thesis using q1 by (simp add: ilog2_def e)
qed

lemma round_half_even_error: "\<bar>of_int (round_half_even x) - x\<bar> \<le> 1 / 2"
proof -
  have "of_int \<lfloor>x\<rfloor> \<le> x" "x < of_int \<lfloor>x\<rfloor> + 1" by linarith+
  then show ?thesis by (auto simp add: round_half_even_def Let_def abs_le_iff)
qed

text \<open>Rounding moves a number by at most half a unit in the last place.\<close>

lemma fl_pos_error:
  assumes "fl_pos q = Fin r"
  shows "\<bar>r - q\<bar> \<le> 2 powi (max (ilog2 q) (- 1022) - 52) / 2"
proof -
  define u :: rat where "u = 2 powi (max (ilog2 q) (- 1022) - 52)"
  have u: "0 < u" by (simp add: u_def)
  have r: "r = of_int (round_half_even (q / u)) * u"
    using assms by (simp add: fl_pos_def Let_def u_def split: if_splits)
  have e1: "\<bar>of_int (round_half_even (q / u)) - q / u\<bar> * u \<le> (1 / 2) * u"
    using round_half_even_error [of "q / u"] u by (intro mult_right_mono) simp_all
  have e2: "\<bar>of_int (round_half_even (q / u)) - q / u\<bar> * u = \<bar>r - q\<bar>"
  proof -
    have "(of_int (round_half_even (q / u)) - q / u) * u = r - q"
      using u by (simp add: r left_diff_distrib)
    then have "\<bar>(of_int (round_half_even (q / u)) - q / u) * u\<bar> = \<bar>r - q\<bar>" by simp
    then show ?thesis using u by (simp add: abs_mult)
  qed
  from e1 have "\<bar>r - q\<bar> \<le> (1 / 2) * u" unfolding e2 .
  then show ?thesis by (simp add: u_def)
qed

lemmas fl_eval = fl_def fl_pos_def ilog2_def round_half_even_def Let_def

lemmas parse_eval =
  parseFloat_def parseInt_def unsigned_decimal_def exponent_part_def scale10_def
  radix_value_def startsWith_def is_ws_def is_digit_def digit_val_def is_hex_digit_def
  hex_val_def str_or_def

lemma zeros_numeral:
  "replicate (numeral k) CHR ''0'' = CHR ''0'' # replicate (pred_numeral k) CHR ''0''"
  by (simp add: numeral_eq_Suc)

lemmas toFixed_eval =
  toFixed.simps(4) fixed_point_def digits10.simps digit_char_def zeros_numeral Let_def

text \<open>
  Some values, as a check of the definitions against the engines: the binary64 value of
  0.1; \<^verbatim>\<open>toFixed\<close> rounds the binary value, not the decimal text (1.005 is stored below
  1.005, 8.345 above 8.345); a small negative number keeps its sign.
\<close>

lemma fl_one_tenth: "fl (1 / 10) = Fin (3602879701896397 / 36028797018963968)"
  by (simp add: fl_eval)

lemma toFixed_binary_rounding:
  "toFixed 2 (parseFloat ''1.005'') = ''1.00''"
  "toFixed 2 (parseFloat ''8.345'') = ''8.35''"
  "toFixed 0 (parseFloat ''2.5'') = ''3''"
  "toFixed 5 (parseFloat ''-0.000001'') = ''-0.00000''"
  by (simp_all add: parse_eval fl_eval toFixed_eval)

lemma parse_examples:
  "parseFloat ''  -12.5e1xyz'' = Fin (- 125)"
  "parseFloat ''.5'' = Fin (1 / 2)"
  "parseFloat ''5.'' = Fin 5"
  "parseFloat ''.'' = NaN"
  "parseFloat ''1e'' = Fin 1"
  "parseFloat ''-Infinity'' = NegInf"
  "parseFloat ''abc'' = NaN"
  "parseFloat [] = NaN"
  "parseInt ''0x1F'' = Fin 31"
  "parseInt '' +42abc'' = Fin 42"
  "parseInt ''9007199254740993'' = Fin 9007199254740992"
  by (simp_all add: parse_eval fl_eval)

section \<open>Facts about parsing\<close>

lemma round_half_even_of_int [simp]: "round_half_even (of_int k) = k"
  by (simp add: round_half_even_def)

lemma fl_small_nat:
  assumes "n < 2 ^ 53"
  shows "fl (of_nat n) = Fin (of_nat n)"
proof (cases "n = 0")
  case True
  then show ?thesis by (simp add: fl_def)
next
  case False
  define q :: rat where "q = of_nat n"
  define b where "b = bitlen (int n)"
  have npos: "0 < int n" using False by simp
  have q1: "1 \<le> q" using False by (simp add: q_def)
  have fq: "\<lfloor>q\<rfloor> = int n" by (simp add: q_def)
  have b1: "1 \<le> b" using npos by (simp add: b_def bitlen_alt_def)
  have "int n < 2 ^ nat 53" using assms by (simp add: nat_less_iff flip: of_nat_less_iff)
  then have b53: "b \<le> 53" unfolding b_def by (simp add: bitlen_le_iff_power)
  have il: "ilog2 q = b - 1" using q1 by (simp add: ilog2_def fq b_def)
  define k where "k = nat (53 - b)"
  have u: "(2::rat) powi (b - 1 - 52) = 1 / 2 ^ k"
  proof -
    have "b - 1 - 52 = - int k" using b53 by (simp add: k_def)
    then show ?thesis by (simp add: power_int_minus inverse_eq_divide)
  qed
  have quot: "q / (1 / 2 ^ k) = of_int (int n * 2 ^ k)" by (simp add: q_def)
  have scaled: "rat_of_int (int n * 2 ^ k) * (1 / 2 ^ k) = q" by (simp add: q_def)
  have small: "\<not> 2 ^ 1024 \<le> q"
  proof -
    have "q < 2 ^ 53" using assms unfolding q_def
      by (metis of_nat_less_iff of_nat_numeral of_nat_power)
    moreover have "(2::rat) ^ 53 \<le> 2 ^ 1024" by (rule power_increasing) simp_all
    ultimately show ?thesis by linarith
  qed
  have e: "max (ilog2 q) (- 1022) = b - 1" using il b1 by simp
  have val: "rat_of_int (round_half_even (q / 2 powi (b - 1 - 52))) * 2 powi (b - 1 - 52) = q"
    by (simp only: u quot round_half_even_of_int scaled)
  have "fl_pos q = Fin q"
    unfolding fl_pos_def Let_def e val using small by (simp only: if_False)
  moreover have "0 < q" using q1 by linarith
  ultimately show ?thesis by (simp add: fl_def q_def)
qed

lemma split_str_first:
  "\<exists>ws. split_str sep s = takeWhile (\<lambda>c. c \<noteq> sep) s # ws"
  by (induction s) auto

lemma household_size_eq:
  "household_size s =
     num_or (parseInt (takeWhile (\<lambda>c. c \<noteq> CHR ''-'') (str_or s ''0''))) (Fin 0)"
proof -
  obtain ws where "split_str CHR ''-'' (str_or s ''0'')
      = takeWhile (\<lambda>c. c \<noteq> CHR ''-'') (str_or s ''0'') # ws"
    using split_str_first by blast
  then show ?thesis by (simp add: household_size_def)
qed

lemma digit_not_special:
  assumes "is_digit c"
  shows "\<not> is_ws c" "c \<noteq> CHR ''-''" "c \<noteq> CHR ''+''" "c \<noteq> CHR ''x''" "c \<noteq> CHR ''X''"
    "c \<noteq> CHR ''.''"
  using assms by (auto simp add: is_digit_def is_ws_def)

lemma parseInt_digits:
  assumes "ds \<noteq> []" "\<forall>c \<in> set ds. is_digit c"
  shows "parseInt ds = fl (of_nat (radix_value 10 digit_val ds))"
proof -
  obtain c cs where ds: "ds = c # cs" using assms(1) by (cases ds) auto
  have c: "is_digit c" using assms(2) ds by simp
  have ws: "dropWhile is_ws ds = ds" using digit_not_special(1) [OF c] ds by simp
  have sg: "strip_sign ds = (False, ds)" using digit_not_special(2,3) [OF c] ds by simp
  have nx: "\<not> startsWith ds ''0x''" "\<not> startsWith ds ''0X''"
  proof -
    show "\<not> startsWith ds ''0x''"
    proof
      assume "startsWith ds ''0x''"
      then have eq: "take (length ''0x'') ds = ''0x''" unfolding startsWith_def .
      have "CHR ''x'' \<in> set (take (length ''0x'') ds)" unfolding eq by simp
      then have "CHR ''x'' \<in> set ds" by (rule in_set_takeD)
      then show False using assms(2) digit_not_special(4) by blast
    qed
    show "\<not> startsWith ds ''0X''"
    proof
      assume "startsWith ds ''0X''"
      then have eq: "take (length ''0X'') ds = ''0X''" unfolding startsWith_def .
      have "CHR ''X'' \<in> set (take (length ''0X'') ds)" unfolding eq by simp
      then have "CHR ''X'' \<in> set ds" by (rule in_set_takeD)
      then show False using assms(2) digit_not_special(5) by blast
    qed
  qed
  have tw: "takeWhile is_digit ds = ds" using assms(2) by (simp add: takeWhile_eq_all_conv)
  show ?thesis using assms(1) by (simp add: parseInt_def ws sg nx tw)
qed

lemma parseInt_empty: "parseInt [] = NaN"
  by (simp add: parseInt_def startsWith_def)

section \<open>Reading back what \<^verbatim>\<open>toFixed\<close> writes\<close>

lemma digit_char_props:
  assumes "d < 10"
  shows "is_digit (digit_char d)" "digit_val (digit_char d) = d"
proof -
  from assms have "d \<in> {0, 1, 2, 3, 4, 5, 6, 7, 8, 9}" by auto
  then show "is_digit (digit_char d)" "digit_val (digit_char d) = d"
    by (auto simp add: digit_char_def is_digit_def digit_val_def)
qed

lemma radix_value_Nil [simp]: "radix_value R val [] = 0"
  by (simp add: radix_value_def)

lemma radix_value_snoc:
  "radix_value R val (ds @ [c]) = R * radix_value R val ds + val c"
  by (simp add: radix_value_def)

lemma radix_value_append:
  "radix_value 10 val (xs @ ys) = radix_value 10 val xs * 10 ^ length ys + radix_value 10 val ys"
proof (induction ys rule: rev_induct)
  case Nil
  then show ?case by (simp add: radix_value_def)
next
  case (snoc y ys)
  have "radix_value 10 val (xs @ ys @ [y]) = 10 * radix_value 10 val (xs @ ys) + val y"
    using radix_value_snoc [of 10 val "xs @ ys" y] by simp
  also have "\<dots> = radix_value 10 val xs * 10 ^ length (ys @ [y])
                   + (10 * radix_value 10 val ys + val y)"
    by (simp add: snoc.IH algebra_simps)
  finally show ?case by (simp add: radix_value_snoc)
qed

lemma digits10_digits: "\<forall>c \<in> set (digits10 n). is_digit c"
proof (induction n rule: digits10.induct)
  case (1 n)
  show ?case
  proof (cases "n < 10")
    case True
    then show ?thesis by (subst digits10.simps) (simp add: digit_char_props)
  next
    case False
    then show ?thesis using 1 by (subst digits10.simps) (simp add: digit_char_props)
  qed
qed

lemma digits10_value: "radix_value 10 digit_val (digits10 n) = n"
proof (induction n rule: digits10.induct)
  case (1 n)
  show ?case
  proof (cases "n < 10")
    case True
    then show ?thesis
      by (subst digits10.simps) (simp add: radix_value_def digit_char_props)
  next
    case False
    then show ?thesis using 1
      by (subst digits10.simps) (simp add: radix_value_snoc digit_char_props)
  qed
qed

lemma digits10_nonempty: "digits10 n \<noteq> []"
  by (subst digits10.simps) simp

lemma radix_value_zeros:
  "radix_value 10 digit_val (replicate k CHR ''0'' @ ds) = radix_value 10 digit_val ds"
proof -
  have z: "radix_value 10 digit_val (replicate k CHR ''0'') = 0"
    by (induction k) (simp_all add: radix_value_def digit_val_def replicate_append_same
        flip: replicate_append_same)
  show ?thesis using radix_value_append [of digit_val "replicate k CHR ''0''" ds] z by simp
qed

lemma zero_digit: "is_digit CHR ''0''"
  by (simp add: is_digit_def)

text \<open>The digit string that \<open>fixed_point\<close> cuts in two.\<close>

lemma fixed_point_shape:
  assumes "f \<noteq> 0"
  obtains a b where "fixed_point f n = a @ ''.'' @ b" "a \<noteq> []" "length b = f"
    "\<forall>c \<in> set a. is_digit c" "\<forall>c \<in> set b. is_digit c"
    "radix_value 10 digit_val (a @ b) = n"
proof -
  define m where "m = (if n = 0 then ''0'' else digits10 n)"
  have m0: "m = digits10 n"
    unfolding m_def by (cases "n = 0") (simp_all add: digits10.simps [of 0] digit_char_def)
  define k where "k = length m"
  define m' where "m' = (if k \<le> f then replicate (f + 1 - k) CHR ''0'' @ m else m)"
  define k' where "k' = (if k \<le> f then f + 1 else k)"
  have len: "length m' = k'" by (simp add: m'_def k'_def k_def)
  have kf: "f < k'" by (simp add: k'_def)
  have dig: "\<forall>c \<in> set m'. is_digit c"
    using digits10_digits [of n] zero_digit by (auto simp add: m'_def m0)
  have val: "radix_value 10 digit_val m' = n"
    by (simp add: m'_def m0 radix_value_zeros digits10_value)
  define a where "a = take (k' - f) m'"
  define b where "b = drop (k' - f) m'"
  have fp: "fixed_point f n = a @ ''.'' @ b"
    using assms by (simp add: fixed_point_def Let_def a_def b_def m'_def k'_def k_def m_def)
  have "a \<noteq> []" using kf len by (auto simp add: a_def)
  moreover have "length b = f" using kf len by (simp add: b_def)
  moreover have "\<forall>c \<in> set a. is_digit c" using dig by (auto simp add: a_def dest: in_set_takeD)
  moreover have "\<forall>c \<in> set b. is_digit c" using dig by (auto simp add: b_def dest: in_set_dropD)
  moreover have "radix_value 10 digit_val (a @ b) = n" using val by (simp add: a_def b_def)
  ultimately show thesis using fp that by blast
qed

lemma read_fixed_unsigned:
  assumes "a \<noteq> []" "\<forall>c \<in> set a. is_digit c" "\<forall>c \<in> set b. is_digit c" "\<not> is_digit sep"
  shows "read_fixed (a @ sep # b) =
           of_nat (radix_value 10 digit_val (a @ b)) / 10 ^ length b"
proof -
  obtain c cs where a: "a = c # cs" using assms(1) by (cases a) auto
  have c: "is_digit c" using assms(2) a by simp
  have sg: "strip_sign (a @ sep # b) = (False, a @ sep # b)"
    using digit_not_special(2,3) [OF c] a by simp
  have ip: "takeWhile is_digit (a @ sep # b) = a"
    using assms(2,4) by (simp add: takeWhile_append2)
  have fp: "drop (Suc (length a)) (a @ sep # b) = b" by simp
  show ?thesis
    unfolding read_fixed_def sg
    by (simp only: prod.case Let_def ip fp if_False)
       (simp add: radix_value_append field_simps)
qed

lemma read_fixed_fixed_point:
  "read_fixed (fixed_point f n) = of_nat n / 10 ^ f"
proof (cases "f = 0")
  case True
  have d: "\<forall>c \<in> set (digits10 n). is_digit c" by (rule digits10_digits)
  obtain c cs where ds: "digits10 n = c # cs" using digits10_nonempty [of n] by (cases "digits10 n") auto
  have c: "is_digit c" using d ds by simp
  have sg: "strip_sign (digits10 n) = (False, digits10 n)"
    using digit_not_special(2,3) [OF c] ds by simp
  have ip: "takeWhile is_digit (digits10 n) = digits10 n"
    using d by (simp add: takeWhile_eq_all_conv)
  have m0: "(if n = 0 then ''0'' else digits10 n) = digits10 n"
    by (cases "n = 0") (simp_all add: digits10.simps [of 0] digit_char_def)
  have "read_fixed (digits10 n) = of_nat n"
    unfolding read_fixed_def sg
    by (simp only: prod.case Let_def ip if_False) (simp add: digits10_value)
  then show ?thesis using True by (simp add: fixed_point_def m0)
next
  case False
  obtain a b where ab: "fixed_point f n = a @ ''.'' @ b" "a \<noteq> []" "length b = f"
    "\<forall>c \<in> set a. is_digit c" "\<forall>c \<in> set b. is_digit c"
    "radix_value 10 digit_val (a @ b) = n"
    using fixed_point_shape [OF False] by blast
  have nd: "\<not> is_digit CHR ''.''" by (simp add: is_digit_def)
  show ?thesis
    using read_fixed_unsigned [OF ab(2) ab(4) ab(5) nd] ab(1,3,6) by simp
qed

lemma fixed_point_starts_with_digit:
  "\<exists>c cs. fixed_point f n = c # cs \<and> is_digit c"
proof (cases "f = 0")
  case True
  have m0: "(if n = 0 then ''0'' else digits10 n) = digits10 n"
    by (cases "n = 0") (simp_all add: digits10.simps [of 0] digit_char_def)
  obtain c cs where ds: "digits10 n = c # cs" using digits10_nonempty [of n] by (cases "digits10 n") auto
  then show ?thesis using digits10_digits [of n] True by (auto simp add: fixed_point_def m0)
next
  case False
  obtain a b where ab: "fixed_point f n = a @ ''.'' @ b" "a \<noteq> []" "\<forall>c \<in> set a. is_digit c"
    using fixed_point_shape [OF False] by blast
  then show ?thesis by (cases a) auto
qed

lemma read_fixed_negative:
  assumes "s = c # cs" "is_digit c"
  shows "read_fixed (''-'' @ s) = - read_fixed s"
proof -
  have sg: "strip_sign s = (False, s)"
    using digit_not_special(2,3) [OF assms(2)] assms(1) by simp
  show ?thesis by (simp add: read_fixed_def sg Let_def)
qed

text \<open>What \<^verbatim>\<open>toFixed\<close> writes, read back: the multiple of \<open>10 ^ - f\<close> nearest to the number,
  the one of larger magnitude of two.\<close>

lemma read_fixed_toFixed:
  assumes "\<bar>x\<bar> < 10 ^ 21"
  shows "read_fixed (toFixed f (Fin x)) =
           (if x < 0 then - 1 else 1) * of_int \<lfloor>\<bar>x\<bar> * 10 ^ f + 1 / 2\<rfloor> / 10 ^ f"
proof -
  define n where "n = nat \<lfloor>\<bar>x\<bar> * 10 ^ f + 1 / 2\<rfloor>"
  have nn: "0 \<le> \<lfloor>\<bar>x\<bar> * 10 ^ f + 1 / 2\<rfloor>" by simp
  have n: "rat_of_nat n = of_int \<lfloor>\<bar>x\<bar> * 10 ^ f + 1 / 2\<rfloor>"
    unfolding n_def using nn by (metis of_nat_nat)
  obtain c cs where st: "fixed_point f n = c # cs" "is_digit c"
    using fixed_point_starts_with_digit by blast
  show ?thesis
  proof (cases "x < 0")
    case True
    then have "toFixed f (Fin x) = ''-'' @ fixed_point f n"
      using assms by (simp add: toFixed.simps(4) n_def Let_def)
    then show ?thesis
      using True read_fixed_negative [OF st] read_fixed_fixed_point [of f n] n by simp
  next
    case False
    then have "toFixed f (Fin x) = fixed_point f n"
      using assms by (simp add: toFixed.simps(4) n_def Let_def)
    then show ?thesis using False read_fixed_fixed_point [of f n] n by simp
  qed
qed

lemma toFixed_error:
  assumes "\<bar>x\<bar> < 10 ^ 21"
  shows "\<bar>read_fixed (toFixed f (Fin x)) - x\<bar> \<le> 1 / (2 * 10 ^ f)"
proof -
  define z where "z = \<bar>x\<bar> * 10 ^ f"
  define y where "y = z + 1 / 2"
  have p: "(0::rat) < 10 ^ f" by simp
  have lo: "of_int \<lfloor>y\<rfloor> \<le> y" and hi: "y < of_int \<lfloor>y\<rfloor> + 1" by linarith+
  have "\<bar>of_int \<lfloor>y\<rfloor> - z\<bar> \<le> 1 / 2" using lo hi unfolding y_def by linarith
  then have "\<bar>of_int \<lfloor>y\<rfloor> - z\<bar> / 10 ^ f \<le> (1 / 2) / 10 ^ f"
    by (rule divide_right_mono) simp
  moreover have "\<bar>of_int \<lfloor>y\<rfloor> - z\<bar> / 10 ^ f = \<bar>of_int \<lfloor>y\<rfloor> / 10 ^ f - \<bar>x\<bar>\<bar>"
  proof -
    have "(of_int \<lfloor>y\<rfloor> - z) / 10 ^ f = of_int \<lfloor>y\<rfloor> / 10 ^ f - \<bar>x\<bar>"
      by (simp add: z_def diff_divide_distrib)
    then have "\<bar>(of_int \<lfloor>y\<rfloor> - z) / 10 ^ f\<bar> = \<bar>of_int \<lfloor>y\<rfloor> / 10 ^ f - \<bar>x\<bar>\<bar>" by simp
    then show ?thesis using p by (simp add: abs_divide)
  qed
  ultimately have e: "\<bar>of_int \<lfloor>y\<rfloor> / 10 ^ f - \<bar>x\<bar>\<bar> \<le> 1 / (2 * 10 ^ f)" by simp
  show ?thesis
  proof (cases "x < 0")
    case True
    then show ?thesis using e read_fixed_toFixed [OF assms, of f]
      by (simp add: y_def z_def abs_le_iff)
  next
    case False
    then show ?thesis using e read_fixed_toFixed [OF assms, of f]
      by (simp add: y_def z_def abs_le_iff)
  qed
qed

section \<open>Timers, handlers and runs\<close>

lemma valid_pair_iff:
  "valid_pair la lo \<longleftrightarrow>
     \<not> isNaN la \<and> \<not> isNaN lo \<and> num_le (Fin (- 90)) la \<and> num_le la (Fin 90)
       \<and> num_le (Fin (- 180)) lo \<and> num_le lo (Fin 180)"
  by (cases la; cases lo) (auto simp add: valid_pair_def isNaN_def)

lemma updateMarkerFromInputs_valid:
  assumes "valid_pair (parseFloat (latitude p)) (parseFloat (longitude p))"
  shows "updateMarkerFromInputs p =
           p\<lparr>marker := typed_coordinate p,
             coords := ''Latitude: '' @ toFixed 5 (parseFloat (latitude p))
                        @ '', Longitude: '' @ toFixed 5 (parseFloat (longitude p)),
             geo_timeout := Some (now p + 500, typed_coordinate p)\<rparr>"
  using assms
  by (simp add: updateMarkerFromInputs_def valid_pair_iff Let_def debouncedUpdateFromMarker_def
        debounce_def setTimeout_def typed_coordinate_def)

lemma updateMarkerFromInputs_invalid:
  assumes "\<not> valid_pair (parseFloat (latitude p)) (parseFloat (longitude p))"
  shows "updateMarkerFromInputs p = p"
  using assms by (auto simp add: updateMarkerFromInputs_def valid_pair_iff Let_def)

lemma reverse_calls_frame [simp]:
  "reverse_calls (p\<lparr>now := n\<rparr>) = reverse_calls p"
  "reverse_calls (p\<lparr>geo_timeout := g\<rparr>) = reverse_calls p"
  "reverse_calls (p\<lparr>search_timeout := s\<rparr>) = reverse_calls p"
  by (simp_all add: reverse_calls_def)

lemma reverse_calls_frame2 [simp]:
  "reverse_calls (updateTo3DView lngLat p) = reverse_calls p"
  "reverse_calls (p\<lparr>marker := m\<rparr>) = reverse_calls p"
  "reverse_calls (p\<lparr>latitude := v\<rparr>) = reverse_calls p"
  "reverse_calls (p\<lparr>longitude := v\<rparr>) = reverse_calls p"
  "reverse_calls (p\<lparr>suggestions_hidden := h\<rparr>) = reverse_calls p"
  by (simp_all add: reverse_calls_def updateTo3DView_def)

lemma fire_search_frame:
  "geo_timeout (fire_search t p) = geo_timeout p"
  "reverse_calls (fire_search t p) = reverse_calls p"
  "latitude (fire_search t p) = latitude p"
  "longitude (fire_search t p) = longitude p"
  "marker (fire_search t p) = marker p"
  "now (fire_search t p) = now p"
  by (simp_all add: fire_search_def address_search_def reverse_calls_def split: option.split)

lemma fire_geo_due:
  assumes "geo_timeout p = Some (due, lngLat)" "due \<le> t"
  shows "fire_geo t p = updateFromMarker lngLat (p\<lparr>geo_timeout := None\<rparr>)"
  using assms by (simp add: fire_geo_def)

lemma updateFromMarker_effect:
  "latitude (updateFromMarker lngLat p) = toFixed 5 (lat lngLat)"
  "longitude (updateFromMarker lngLat p) = toFixed 5 (lng lngLat)"
  "marker (updateFromMarker lngLat p) = marker p"
  "geo_timeout (updateFromMarker lngLat p) = geo_timeout p"
  "search_timeout (updateFromMarker lngLat p) = search_timeout p"
  "now (updateFromMarker lngLat p) = now p"
  "reverse_calls (updateFromMarker lngLat p) = reverse_calls p @ [reverse_call lngLat]"
  by (simp_all add: updateFromMarker_def Let_def reverse_calls_def reverse_call_def)

lemma advance_quiet:
  assumes "geo_timeout p = None \<or> (\<exists>due lngLat. geo_timeout p = Some (due, lngLat) \<and> t < due)"
  shows "geo_timeout (advance t p) = geo_timeout p"
    and "reverse_calls (advance t p) = reverse_calls p"
    and "latitude (advance t p) = latitude p"
    and "longitude (advance t p) = longitude p"
    and "marker (advance t p) = marker p"
    and "now (advance t p) = max t (now p)"
proof -
  have g: "fire_geo t p = p" using assms by (auto simp add: fire_geo_def)
  have g': "fire_geo t (fire_search t p) = fire_search t p"
    using assms by (auto simp add: fire_geo_def fire_search_frame)
  show "geo_timeout (advance t p) = geo_timeout p"
    and "reverse_calls (advance t p) = reverse_calls p"
    and "latitude (advance t p) = latitude p"
    and "longitude (advance t p) = longitude p"
    and "marker (advance t p) = marker p"
    and "now (advance t p) = max t (now p)"
    by (simp_all add: advance_def Let_def g g' fire_search_frame)
qed

lemma advance_fires:
  assumes "geo_timeout p = Some (due, lngLat)" "due \<le> t"
  shows "reverse_calls (advance t p) = reverse_calls p @ [reverse_call lngLat]"
    and "geo_timeout (advance t p) = None"
    and "latitude (advance t p) = toFixed 5 (lat lngLat)"
    and "longitude (advance t p) = toFixed 5 (lng lngLat)"
    and "marker (advance t p) = marker p"
proof -
  have g: "fire_geo t p = updateFromMarker lngLat (p\<lparr>geo_timeout := None\<rparr>)"
    using assms by (rule fire_geo_due)
  have g': "fire_geo t (fire_search t p) =
              updateFromMarker lngLat ((fire_search t p)\<lparr>geo_timeout := None\<rparr>)"
    using assms by (intro fire_geo_due) (simp_all add: fire_search_frame)
  show "reverse_calls (advance t p) = reverse_calls p @ [reverse_call lngLat]"
    and "geo_timeout (advance t p) = None"
    and "latitude (advance t p) = toFixed 5 (lat lngLat)"
    and "longitude (advance t p) = toFixed 5 (lng lngLat)"
    and "marker (advance t p) = marker p"
    by (simp_all add: advance_def Let_def g g' fire_search_frame updateFromMarker_effect)
qed

lemma dispatch_typed:
  assumes "coordinate_typed e p"
  shows "geo_timeout (dispatch e p) = Some (now p + 500, typed_coordinate (dispatch e p))"
    and "reverse_calls (dispatch e p) = reverse_calls p"
    and "now (dispatch e p) = now p"
    and "marker (dispatch e p) = typed_coordinate (dispatch e p)"
  using assms
  by (cases e; simp add: updateMarkerFromInputs_valid typed_coordinate_def reverse_calls_def)+

lemma burst_invariant:
  assumes "geo_timeout p = Some (t0 + 500, typed_coordinate p)" "now p \<le> t0"
    and "typing_burst t0 es p"
  shows "reverse_calls (run es p) = reverse_calls p
         \<and> geo_timeout (run es p) = Some (last_time t0 es + 500, typed_coordinate (run es p))
         \<and> now (run es p) \<le> last_time t0 es"
  using assms
proof (induction es arbitrary: t0 p)
  case Nil
  then show ?case by simp
next
  case (Cons te es)
  obtain t e where te: "te = (t, e)" by (cases te)
  let ?q = "advance t p"
  let ?r = "dispatch e ?q"
  from Cons.prems(3) te have t: "t0 \<le> t" "t < t0 + 500"
    and typed: "coordinate_typed e ?q" and rest: "typing_burst t es ?r"
    by simp_all
  have quiet: "geo_timeout p = None \<or> (\<exists>due lngLat. geo_timeout p = Some (due, lngLat) \<and> t < due)"
    using Cons.prems(1) t by simp
  have nowq: "now ?q = t" using advance_quiet(6) [OF quiet] Cons.prems(2) t by simp
  have r1: "geo_timeout ?r = Some (t + 500, typed_coordinate ?r)"
    using dispatch_typed(1) [OF typed] nowq by simp
  have r2: "reverse_calls ?r = reverse_calls p"
    using dispatch_typed(2) [OF typed] advance_quiet(2) [OF quiet] by simp
  have r3: "now ?r \<le> t" using dispatch_typed(3) [OF typed] nowq by simp
  from Cons.IH [OF r1 r3 rest] r2 te show ?case by simp
qed

text \<open>Values of the parser and of the formatter used in the examples.\<close>

lemma parseFloat_examples:
  "parseFloat ''12'' = Fin 12"
  "parseFloat ''77'' = Fin 77"
  "parseFloat ''12.5'' = Fin (25 / 2)"
  "parseFloat ''77.5'' = Fin (155 / 2)"
  "parseFloat ''13'' = Fin 13"
  "parseFloat ''13.5'' = Fin (27 / 2)"
  "parseFloat ''12.3456789'' = Fin (3474999680854737 / 281474976710656)"
  by (simp_all add: parse_eval fl_eval)

lemma toFixed_examples:
  "toFixed 5 (Fin 12) = ''12.00000''"
  "toFixed 5 (Fin 77) = ''77.00000''"
  "toFixed 5 (Fin (25 / 2)) = ''12.50000''"
  "toFixed 5 (Fin (155 / 2)) = ''77.50000''"
  "toFixed 5 (Fin 13) = ''13.00000''"
  "toFixed 5 (Fin (27 / 2)) = ''13.50000''"
  "toFixed 5 (Fin (3474999680854737 / 281474976710656)) = ''12.34568''"
  by (simp_all add: toFixed_eval)

lemma valid_examples:
  "valid_pair (Fin (25 / 2)) (Fin 77)" "valid_pair (Fin (25 / 2)) (Fin (155 / 2))"
  "valid_pair (Fin 13) (Fin (155 / 2))"
  "valid_pair (Fin (3474999680854737 / 281474976710656)) (Fin 77)"
  "valid_pair (Fin (27 / 2)) (Fin 77)"
  by (simp_all add: valid_pair_def)

lemma direct_sources:
  "latitude (map_click ll p) = toFixed 5 (lat ll)"
  "longitude (map_click ll p) = toFixed 5 (lng ll)"
  "marker (map_click ll p) = ll"
  "latitude (dispatch (MarkerDragEnd ll) p) = toFixed 5 (lat ll)"
  "longitude (dispatch (MarkerDragEnd ll) p) = toFixed 5 (lng ll)"
  "marker (dispatch (MarkerDragEnd ll) p) = ll"
  "latitude (geolocation_click (Position lo la) p) = toFixed 5 la"
  "longitude (geolocation_click (Position lo la) p) = toFixed 5 lo"
  "marker (geolocation_click (Position lo la) p) = \<lparr>lng = lo, lat = la\<rparr>"
  by (simp_all add: map_click_def marker_dragend_def geolocation_click_def updateFromMarker_effect
        updateTo3DView_def Let_def)

lemma suggestion_source:
  assumes "i < length (suggestions p)"
  shows "latitude (suggestion_click i p) = toFixed 5 (lat (center (suggestions p ! i)))"
    and "longitude (suggestion_click i p) = toFixed 5 (lng (center (suggestions p ! i)))"
    and "marker (suggestion_click i p) = center (suggestions p ! i)"
  using assms
  by (simp_all add: suggestion_click_def updateFromMarker_effect updateTo3DView_def Let_def)

lemma text_source:
  assumes "coordinate_typed e p"
  shows "marker (dispatch e p) = typed_coordinate (dispatch e p)"
    and "now p + 500 \<le> t \<Longrightarrow>
          latitude (advance t (dispatch e p)) = toFixed 5 (lat (typed_coordinate (dispatch e p)))
          \<and> longitude (advance t (dispatch e p)) = toFixed 5 (lng (typed_coordinate (dispatch e p)))
          \<and> marker (advance t (dispatch e p)) = typed_coordinate (dispatch e p)"
proof -
  show "marker (dispatch e p) = typed_coordinate (dispatch e p)"
    using dispatch_typed(4) [OF assms] .
  assume t: "now p + 500 \<le> t"
  note pend = dispatch_typed(1) [OF assms]
  show "latitude (advance t (dispatch e p)) = toFixed 5 (lat (typed_coordinate (dispatch e p)))
          \<and> longitude (advance t (dispatch e p)) = toFixed 5 (lng (typed_coordinate (dispatch e p)))
          \<and> marker (advance t (dispatch e p)) = typed_coordinate (dispatch e p)"
    using advance_fires(3,4,5) [OF pend t] dispatch_typed(4) [OF assms] by simp
qed

lemma text_fields_kept:
  "latitude (dispatch (LatitudeInput v) p) = v"
  "longitude (dispatch (LatitudeInput v) p) = longitude p"
  "latitude (dispatch (LongitudeInput v) p) = latitude p"
  "longitude (dispatch (LongitudeInput v) p) = v"
  by (simp_all add: updateMarkerFromInputs_def Let_def debouncedUpdateFromMarker_def)

lemma direct_calls:
  "network (dispatch (MapClick ll) q) = network q @ [reverse_call ll]"
  "geo_timeout (dispatch (MapClick ll) q) = geo_timeout q"
  "network (dispatch (MarkerDragEnd ll) q) = network q @ [reverse_call ll]"
  "geo_timeout (dispatch (MarkerDragEnd ll) q) = geo_timeout q"
  "network (dispatch (GeolocationClick (Position lo la)) q)
     = network q @ [reverse_call \<lparr>lng = lo, lat = la\<rparr>]"
  "geo_timeout (dispatch (GeolocationClick (Position lo la)) q) = geo_timeout q"
  by (simp_all add: map_click_def marker_dragend_def geolocation_click_def updateFromMarker_def
        updateTo3DView_def reverse_call_def Let_def)

lemma suggestion_call:
  assumes "i < length (suggestions q)"
  shows "network (dispatch (SuggestionClick i) q)
           = network q @ [reverse_call (center (suggestions q ! i))]"
    and "geo_timeout (dispatch (SuggestionClick i) q) = geo_timeout q"
  using assms
  by (simp_all add: suggestion_click_def updateFromMarker_def updateTo3DView_def
        reverse_call_def Let_def)

lemma context_text_first:
  assumes "context_entries f = Some (pre @ c # post)"
    and "\<forall>d \<in> set pre. take (length kind) (entry_id d) \<noteq> kind"
    and "take (length kind) (entry_id c) = kind"
  shows "context_text f kind = entry_text c"
proof -
  have "find (\<lambda>c. startsWith (entry_id c) kind) (pre @ c # post) = Some c"
    using assms(2,3) by (induction pre) (simp_all add: startsWith_def)
  then show ?thesis using assms(1) by (simp add: context_text_def str_or_def)
qed

lemma context_text_none:
  assumes "context_entries f = None
      \<or> (\<exists>cs. context_entries f = Some cs \<and> (\<forall>d \<in> set cs. take (length kind) (entry_id d) \<noteq> kind))"
  shows "context_text f kind = []"
proof -
  have nf: "find (\<lambda>c. startsWith (entry_id c) kind) cs = None"
    if "\<forall>d \<in> set cs. take (length kind) (entry_id d) \<noteq> kind" for cs
    using that by (induction cs) (simp_all add: startsWith_def)
  from assms show ?thesis
  proof
    assume "context_entries f = None"
    then show ?thesis by (simp add: context_text_def)
  next
    assume "\<exists>cs. context_entries f = Some cs
        \<and> (\<forall>d \<in> set cs. take (length kind) (entry_id d) \<noteq> kind)"
    then obtain cs where cs: "context_entries f = Some cs"
      and no: "\<forall>d \<in> set cs. take (length kind) (entry_id d) \<noteq> kind" by blast
    show ?thesis by (simp add: context_text_def cs nf [OF no])
  qed
qed

section \<open>Coordinate changes\<close>

text \<open>
  Claim C1, as the script implements it. Reverse geocoding is debounced for the
  coordinate changes made through the latitude and longitude text fields. Take a burst
  of such edits that starts while no reverse-geocoding timer is pending, in which every
  edit leaves a valid pair in the two fields and follows the edit before it by less than
  500 ms. Then no reverse-geocoding request is sent during the burst; once 500 ms have
  passed after the last edit, exactly one request has been sent, for the pair the fields
  held after the last edit; and no timer is pending any more. The other sources are not
  debounced: a map click, the end of a marker drag, a position found by geolocation and a
  click on a listed suggestion each send exactly one request at once, for the coordinate
  of the event written with five decimals, and leave the reverse-geocoding timer as it
  is.
\<close>

theorem text_input_debounced:
  assumes idle: "geo_timeout p = None"
    and start: "now p \<le> t"
    and first: "coordinate_typed e (advance t p)"
    and burst: "typing_burst t es (dispatch e (advance t p))"
    and later: "last_time t es + 500 \<le> T"
  shows "reverse_calls (run ((t, e) # es) p) = reverse_calls p
    \<and> reverse_calls (advance T (run ((t, e) # es) p)) =
           reverse_calls p @ [reverse_call (typed_coordinate (run ((t, e) # es) p))]
    \<and> geo_timeout (advance T (run ((t, e) # es) p)) = None
    \<and> reverse_call ll = ReverseGeocode (toFixed 5 (lng ll)) (toFixed 5 (lat ll))
    \<and> network (dispatch (MapClick ll) q) = network q @ [reverse_call ll]
    \<and> geo_timeout (dispatch (MapClick ll) q) = geo_timeout q
    \<and> network (dispatch (MarkerDragEnd ll) q) = network q @ [reverse_call ll]
    \<and> geo_timeout (dispatch (MarkerDragEnd ll) q) = geo_timeout q
    \<and> network (dispatch (GeolocationClick (Position lo la)) q)
         = network q @ [reverse_call \<lparr>lng = lo, lat = la\<rparr>]
    \<and> geo_timeout (dispatch (GeolocationClick (Position lo la)) q) = geo_timeout q
    \<and> (i < length (suggestions q) \<longrightarrow>
         network (dispatch (SuggestionClick i) q)
           = network q @ [reverse_call (center (suggestions q ! i))]
         \<and> geo_timeout (dispatch (SuggestionClick i) q) = geo_timeout q)"
proof -
  let ?q = "advance t p"
  let ?r = "dispatch e ?q"
  have quiet: "geo_timeout p = None \<or> (\<exists>due lngLat. geo_timeout p = Some (due, lngLat) \<and> t < due)"
    using idle by simp
  have nowq: "now ?q = t" using advance_quiet(6) [OF quiet] start by simp
  have r1: "geo_timeout ?r = Some (t + 500, typed_coordinate ?r)"
    using dispatch_typed(1) [OF first] nowq by simp
  have r2: "reverse_calls ?r = reverse_calls p"
    using dispatch_typed(2) [OF first] advance_quiet(2) [OF quiet] by simp
  have r3: "now ?r \<le> t" using dispatch_typed(3) [OF first] nowq by simp
  note inv = burst_invariant [OF r1 r3 burst]
  have a: "reverse_calls (run ((t, e) # es) p) = reverse_calls p"
    using inv r2 by simp
  have pending: "geo_timeout (run ((t, e) # es) p) =
      Some (last_time t es + 500, typed_coordinate (run ((t, e) # es) p))"
    using inv by simp
  have b: "reverse_calls (advance T (run ((t, e) # es) p)) =
           reverse_calls p @ [reverse_call (typed_coordinate (run ((t, e) # es) p))]"
    using advance_fires(1) [OF pending later] inv r2 by simp
  have c: "geo_timeout (advance T (run ((t, e) # es) p)) = None"
    using advance_fires(2) [OF pending later] .
  have d: "reverse_call ll = ReverseGeocode (toFixed 5 (lng ll)) (toFixed 5 (lat ll))"
    by (simp add: reverse_call_def)
  have s: "i < length (suggestions q) \<longrightarrow>
         network (dispatch (SuggestionClick i) q)
           = network q @ [reverse_call (center (suggestions q ! i))]
         \<and> geo_timeout (dispatch (SuggestionClick i) q) = geo_timeout q"
    using suggestion_call [of i q] by blast
  from a b c d s direct_calls show ?thesis by blast
qed

theorem text_input_debounced_witness:
  "reverse_calls (run [(100, LatitudeInput ''12.5''), (300, LongitudeInput ''77.5''),
                       (700, LatitudeInput ''13'')] typing_page) = []
   \<and> reverse_calls (advance 1200 (run [(100, LatitudeInput ''12.5''), (300, LongitudeInput ''77.5''),
                       (700, LatitudeInput ''13'')] typing_page))
       = [ReverseGeocode ''77.50000'' ''13.00000'']
   \<and> network (dispatch (MapClick \<lparr>lng = Fin (155 / 2), lat = Fin (25 / 2)\<rparr>) typing_page)
       = [ReverseGeocode ''77.50000'' ''12.50000'']
   \<and> network (dispatch (SuggestionClick 0) (typing_page\<lparr>suggestions := [example_feature]\<rparr>))
       = [ReverseGeocode ''77.50000'' ''13.00000'']"
proof -
  define p1 where "p1 = dispatch (LatitudeInput ''12.5'') (advance 100 typing_page)"
  define p2 where "p2 = dispatch (LongitudeInput ''77.5'') (advance 300 p1)"
  define p3 where "p3 = dispatch (LatitudeInput ''13'') (advance 700 p2)"
  define ps where "ps = typing_page\<lparr>suggestions := [example_feature]\<rparr>"
  have idle: "geo_timeout typing_page = None" and start: "now typing_page \<le> 100"
    and calls: "reverse_calls typing_page = []"
    by (simp_all add: typing_page_def example_page_def reverse_calls_def)
  have q0: "geo_timeout typing_page = None \<or>
      (\<exists>due lngLat. geo_timeout typing_page = Some (due, lngLat) \<and> 100 < due)"
    using idle by simp
  have f0: "latitude (advance 100 typing_page) = ''12''" "longitude (advance 100 typing_page) = ''77''"
    "now (advance 100 typing_page) = 100"
    using advance_quiet(3,4,6) [OF q0] by (simp_all add: typing_page_def example_page_def)
  have first: "coordinate_typed (LatitudeInput ''12.5'') (advance 100 typing_page)"
    by (simp add: f0 parseFloat_examples valid_examples)
  have p1: "latitude p1 = ''12.5''" "longitude p1 = ''77''"
    "geo_timeout p1 = Some (600, \<lparr>lng = Fin 77, lat = Fin (25 / 2)\<rparr>)" "now p1 = 100"
    by (simp_all add: p1_def updateMarkerFromInputs_valid f0 parseFloat_examples valid_examples
          typed_coordinate_def)
  have q1: "geo_timeout p1 = None \<or>
      (\<exists>due lngLat. geo_timeout p1 = Some (due, lngLat) \<and> 300 < due)"
    using p1(3) by simp
  have f1: "latitude (advance 300 p1) = ''12.5''" "longitude (advance 300 p1) = ''77''"
    "now (advance 300 p1) = 300"
    using advance_quiet(3,4,6) [OF q1] p1 by simp_all
  have second: "coordinate_typed (LongitudeInput ''77.5'') (advance 300 p1)"
    by (simp add: f1 parseFloat_examples valid_examples)
  have p2: "latitude p2 = ''12.5''" "longitude p2 = ''77.5''"
    "geo_timeout p2 = Some (800, \<lparr>lng = Fin (155 / 2), lat = Fin (25 / 2)\<rparr>)"
    by (simp_all add: p2_def updateMarkerFromInputs_valid f1 parseFloat_examples valid_examples
          typed_coordinate_def)
  have q2: "geo_timeout p2 = None \<or>
      (\<exists>due lngLat. geo_timeout p2 = Some (due, lngLat) \<and> 700 < due)"
    using p2(3) by simp
  have f2: "latitude (advance 700 p2) = ''12.5''" "longitude (advance 700 p2) = ''77.5''"
    using advance_quiet(3,4) [OF q2] p2 by simp_all
  have third: "coordinate_typed (LatitudeInput ''13'') (advance 700 p2)"
    by (simp add: f2 parseFloat_examples valid_examples)
  have p3: "latitude p3 = ''13''" "longitude p3 = ''77.5''"
    by (simp_all add: p3_def updateMarkerFromInputs_valid f2 parseFloat_examples valid_examples)
  have burst: "typing_burst 100 [(300, LongitudeInput ''77.5''), (700, LatitudeInput ''13'')] p1"
    using second third by (simp del: dispatch.simps add: p2_def [symmetric])
  have later: "last_time 100 [(300, LongitudeInput ''77.5''), (700, LatitudeInput ''13'')] + 500 \<le> 1200"
    by simp
  have fin: "run [(100, LatitudeInput ''12.5''), (300, LongitudeInput ''77.5''),
                  (700, LatitudeInput ''13'')] typing_page = p3"
    by (simp del: dispatch.simps add: p1_def p2_def p3_def)
  have final: "typed_coordinate p3 = \<lparr>lng = Fin (155 / 2), lat = Fin 13\<rparr>"
    by (simp add: typed_coordinate_def p3 parseFloat_examples)
  have net: "network typing_page = []" "network ps = []"
    by (simp_all add: ps_def typing_page_def example_page_def)
  have sg: "0 < length (suggestions ps)"
    "center (suggestions ps ! 0) = \<lparr>lng = Fin (155 / 2), lat = Fin 13\<rparr>"
    by (simp_all add: ps_def example_feature_def)
  note burst_part = text_input_debounced
      [OF idle start first burst [unfolded p1_def] later,
       of "\<lparr>lng = Fin (155 / 2), lat = Fin (25 / 2)\<rparr>" typing_page _ _ 0]
  note sugg_part = text_input_debounced
      [OF idle start first burst [unfolded p1_def] later,
       of "\<lparr>lng = Fin (155 / 2), lat = Fin 13\<rparr>" ps _ _ 0]
  have a: "reverse_calls p3 = [] \<and> reverse_calls (advance 1200 p3) = [ReverseGeocode ''77.50000'' ''13.00000'']"
    using burst_part
    by (simp only: fin calls final reverse_call_def toFixed_examples append_Nil lnglat.simps)
  have rc1: "reverse_call \<lparr>lng = Fin (155 / 2), lat = Fin (25 / 2)\<rparr>
      = ReverseGeocode ''77.50000'' ''12.50000''"
    by (simp add: reverse_call_def toFixed_examples)
  have rc2: "reverse_call \<lparr>lng = Fin (155 / 2), lat = Fin 13\<rparr>
      = ReverseGeocode ''77.50000'' ''13.00000''"
    by (simp add: reverse_call_def toFixed_examples)
  from burst_part have b: "network (dispatch (MapClick \<lparr>lng = Fin (155 / 2), lat = Fin (25 / 2)\<rparr>) typing_page)
       = [ReverseGeocode ''77.50000'' ''12.50000'']"
    by (simp only: net rc1 append_Nil)
  from sugg_part sg have c: "network (dispatch (SuggestionClick 0) ps)
       = [ReverseGeocode ''77.50000'' ''13.00000'']"
    by (simp only: net rc2 append_Nil simp_thms)
  from a b c show ?thesis unfolding fin ps_def by blast
qed

text \<open>
  Claim C1 as stated, for every input source, does not hold: the handlers of the map
  click, of the end of a marker drag, of the geolocation button and of a suggestion call
  \<^verbatim>\<open>updateFromMarker\<close> directly, not its debounced version. Two map clicks 100 ms apart
  send two reverse-geocoding requests, the first of them for the pair that is not the
  final one.
\<close>

theorem reverse_geocoding_not_debounced_for_clicks:
  "reverse_calls (run [(0, MapClick \<lparr>lng = Fin (155 / 2), lat = Fin (25 / 2)\<rparr>),
                       (100, MapClick \<lparr>lng = Fin 77, lat = Fin 13\<rparr>)] example_page)
     = [ReverseGeocode ''77.50000'' ''12.50000'', ReverseGeocode ''77.00000'' ''13.00000'']"
proof -
  define p1 where
    "p1 = dispatch (MapClick \<lparr>lng = Fin (155 / 2), lat = Fin (25 / 2)\<rparr>) (advance 0 example_page)"
  have q0: "geo_timeout example_page = None \<or>
      (\<exists>due lngLat. geo_timeout example_page = Some (due, lngLat) \<and> 0 < due)"
    by (simp add: example_page_def)
  have c0: "reverse_calls (advance 0 example_page) = []"
    using advance_quiet(2) [OF q0] by (simp add: example_page_def reverse_calls_def)
  have g0: "geo_timeout (advance 0 example_page) = None"
    using advance_quiet(1) [OF q0] by (simp add: example_page_def)
  have c1: "reverse_calls p1 = [ReverseGeocode ''77.50000'' ''12.50000'']"
    by (simp add: p1_def map_click_def updateFromMarker_effect c0 reverse_call_def
          toFixed_examples)
  have g1: "geo_timeout p1 = None"
    by (simp add: p1_def map_click_def updateFromMarker_effect updateTo3DView_def g0)
  have q1: "geo_timeout p1 = None \<or>
      (\<exists>due lngLat. geo_timeout p1 = Some (due, lngLat) \<and> 100 < due)"
    using g1 by simp
  have c1': "reverse_calls (advance 100 p1) = [ReverseGeocode ''77.50000'' ''12.50000'']"
    using advance_quiet(2) [OF q1] c1 by simp
  have "run [(0, MapClick \<lparr>lng = Fin (155 / 2), lat = Fin (25 / 2)\<rparr>),
             (100, MapClick \<lparr>lng = Fin 77, lat = Fin 13\<rparr>)] example_page
        = map_click \<lparr>lng = Fin 77, lat = Fin 13\<rparr> (advance 100 p1)"
    by (simp add: p1_def)
  then show ?thesis
    by (simp add: map_click_def updateFromMarker_effect c1' reverse_call_def toFixed_examples)
qed

text \<open>
  Claim C2, as the script implements it. Let the pair be valid. A map click, the end of a
  marker drag, a geolocation fix and the click on a suggestion at that pair write the
  \<^verbatim>\<open>toFixed(5)\<close> renderings of the pair into the latitude and longitude fields and put
  the marker on exactly that pair, at once. An edit of the latitude or of the longitude
  field that leaves that pair in the fields puts the marker on exactly that pair at once
  and leaves the two fields as they were typed; when the clock then reaches 500 ms after
  the edit, the reverse-geocoding timer fires and rewrites the two fields with the
  \<^verbatim>\<open>toFixed(5)\<close> renderings. Such a rendering, read back as a decimal numeral, is within
  0.000005 of the number.
\<close>

theorem coordinate_sync:
  assumes "valid_pair (Fin x) (Fin y)"
  shows
   "(\<forall>q \<in> {map_click \<lparr>lng = Fin y, lat = Fin x\<rparr> p,
             dispatch (MarkerDragEnd \<lparr>lng = Fin y, lat = Fin x\<rparr>) p,
             geolocation_click (Position (Fin y) (Fin x)) p}.
       latitude q = toFixed 5 (Fin x) \<and> longitude q = toFixed 5 (Fin y)
       \<and> marker q = \<lparr>lng = Fin y, lat = Fin x\<rparr>)
    \<and> (i < length (suggestions p) \<and> center (suggestions p ! i) = \<lparr>lng = Fin y, lat = Fin x\<rparr> \<longrightarrow>
         latitude (suggestion_click i p) = toFixed 5 (Fin x)
         \<and> longitude (suggestion_click i p) = toFixed 5 (Fin y)
         \<and> marker (suggestion_click i p) = \<lparr>lng = Fin y, lat = Fin x\<rparr>)
    \<and> (parseFloat v = Fin x \<and> parseFloat (longitude p) = Fin y \<longrightarrow>
         marker (dispatch (LatitudeInput v) p) = \<lparr>lng = Fin y, lat = Fin x\<rparr>
         \<and> latitude (dispatch (LatitudeInput v) p) = v
         \<and> longitude (dispatch (LatitudeInput v) p) = longitude p
         \<and> (\<forall>t. now p + 500 \<le> t \<longrightarrow>
               latitude (advance t (dispatch (LatitudeInput v) p)) = toFixed 5 (Fin x)
               \<and> longitude (advance t (dispatch (LatitudeInput v) p)) = toFixed 5 (Fin y)
               \<and> marker (advance t (dispatch (LatitudeInput v) p)) = \<lparr>lng = Fin y, lat = Fin x\<rparr>))
    \<and> (parseFloat (latitude p) = Fin x \<and> parseFloat v = Fin y \<longrightarrow>
         marker (dispatch (LongitudeInput v) p) = \<lparr>lng = Fin y, lat = Fin x\<rparr>
         \<and> latitude (dispatch (LongitudeInput v) p) = latitude p
         \<and> longitude (dispatch (LongitudeInput v) p) = v
         \<and> (\<forall>t. now p + 500 \<le> t \<longrightarrow>
               latitude (advance t (dispatch (LongitudeInput v) p)) = toFixed 5 (Fin x)
               \<and> longitude (advance t (dispatch (LongitudeInput v) p)) = toFixed 5 (Fin y)
               \<and> marker (advance t (dispatch (LongitudeInput v) p)) = \<lparr>lng = Fin y, lat = Fin x\<rparr>))
    \<and> \<bar>read_fixed (toFixed 5 (Fin x)) - x\<bar> \<le> 1 / 200000
    \<and> \<bar>read_fixed (toFixed 5 (Fin y)) - y\<bar> \<le> 1 / 200000"
proof (intro conjI)
  show "\<forall>q \<in> {map_click \<lparr>lng = Fin y, lat = Fin x\<rparr> p,
             dispatch (MarkerDragEnd \<lparr>lng = Fin y, lat = Fin x\<rparr>) p,
             geolocation_click (Position (Fin y) (Fin x)) p}.
       latitude q = toFixed 5 (Fin x) \<and> longitude q = toFixed 5 (Fin y)
       \<and> marker q = \<lparr>lng = Fin y, lat = Fin x\<rparr>"
    by (simp del: dispatch.simps add: direct_sources)
  show "i < length (suggestions p) \<and> center (suggestions p ! i) = \<lparr>lng = Fin y, lat = Fin x\<rparr> \<longrightarrow>
         latitude (suggestion_click i p) = toFixed 5 (Fin x)
         \<and> longitude (suggestion_click i p) = toFixed 5 (Fin y)
         \<and> marker (suggestion_click i p) = \<lparr>lng = Fin y, lat = Fin x\<rparr>"
    using suggestion_source [of i p] by simp
  show "parseFloat v = Fin x \<and> parseFloat (longitude p) = Fin y \<longrightarrow>
         marker (dispatch (LatitudeInput v) p) = \<lparr>lng = Fin y, lat = Fin x\<rparr>
         \<and> latitude (dispatch (LatitudeInput v) p) = v
         \<and> longitude (dispatch (LatitudeInput v) p) = longitude p
         \<and> (\<forall>t. now p + 500 \<le> t \<longrightarrow>
               latitude (advance t (dispatch (LatitudeInput v) p)) = toFixed 5 (Fin x)
               \<and> longitude (advance t (dispatch (LatitudeInput v) p)) = toFixed 5 (Fin y)
               \<and> marker (advance t (dispatch (LatitudeInput v) p)) = \<lparr>lng = Fin y, lat = Fin x\<rparr>)"
  proof
    assume h: "parseFloat v = Fin x \<and> parseFloat (longitude p) = Fin y"
    then have typed: "coordinate_typed (LatitudeInput v) p" using assms by simp
    have tc: "typed_coordinate (dispatch (LatitudeInput v) p) = \<lparr>lng = Fin y, lat = Fin x\<rparr>"
      using h by (simp del: dispatch.simps add: typed_coordinate_def text_fields_kept)
    show "marker (dispatch (LatitudeInput v) p) = \<lparr>lng = Fin y, lat = Fin x\<rparr>
         \<and> latitude (dispatch (LatitudeInput v) p) = v
         \<and> longitude (dispatch (LatitudeInput v) p) = longitude p
         \<and> (\<forall>t. now p + 500 \<le> t \<longrightarrow>
               latitude (advance t (dispatch (LatitudeInput v) p)) = toFixed 5 (Fin x)
               \<and> longitude (advance t (dispatch (LatitudeInput v) p)) = toFixed 5 (Fin y)
               \<and> marker (advance t (dispatch (LatitudeInput v) p)) = \<lparr>lng = Fin y, lat = Fin x\<rparr>)"
      using text_source [OF typed] tc
      by (simp del: dispatch.simps add: text_fields_kept)
  qed
  show "parseFloat (latitude p) = Fin x \<and> parseFloat v = Fin y \<longrightarrow>
         marker (dispatch (LongitudeInput v) p) = \<lparr>lng = Fin y, lat = Fin x\<rparr>
         \<and> latitude (dispatch (LongitudeInput v) p) = latitude p
         \<and> longitude (dispatch (LongitudeInput v) p) = v
         \<and> (\<forall>t. now p + 500 \<le> t \<longrightarrow>
               latitude (advance t (dispatch (LongitudeInput v) p)) = toFixed 5 (Fin x)
               \<and> longitude (advance t (dispatch (LongitudeInput v) p)) = toFixed 5 (Fin y)
               \<and> marker (advance t (dispatch (LongitudeInput v) p)) = \<lparr>lng = Fin y, lat = Fin x\<rparr>)"
  proof
    assume h: "parseFloat (latitude p) = Fin x \<and> parseFloat v = Fin y"
    then have typed: "coordinate_typed (LongitudeInput v) p" using assms by simp
    have tc: "typed_coordinate (dispatch (LongitudeInput v) p) = \<lparr>lng = Fin y, lat = Fin x\<rparr>"
      using h by (simp del: dispatch.simps add: typed_coordinate_def text_fields_kept)
    show "marker (dispatch (LongitudeInput v) p) = \<lparr>lng = Fin y, lat = Fin x\<rparr>
         \<and> latitude (dispatch (LongitudeInput v) p) = latitude p
         \<and> longitude (dispatch (LongitudeInput v) p) = v
         \<and> (\<forall>t. now p + 500 \<le> t \<longrightarrow>
               latitude (advance t (dispatch (LongitudeInput v) p)) = toFixed 5 (Fin x)
               \<and> longitude (advance t (dispatch (LongitudeInput v) p)) = toFixed 5 (Fin y)
               \<and> marker (advance t (dispatch (LongitudeInput v) p)) = \<lparr>lng = Fin y, lat = Fin x\<rparr>)"
      using text_source [OF typed] tc
      by (simp del: dispatch.simps add: text_fields_kept)
  qed
  have bx: "\<bar>x\<bar> < 10 ^ 21" and by': "\<bar>y\<bar> < 10 ^ 21"
    using assms by (simp_all add: valid_pair_def abs_less_iff)
  show "\<bar>read_fixed (toFixed 5 (Fin x)) - x\<bar> \<le> 1 / 200000"
    using toFixed_error [OF bx, of 5] by simp
  show "\<bar>read_fixed (toFixed 5 (Fin y)) - y\<bar> \<le> 1 / 200000"
    using toFixed_error [OF by', of 5] by simp
qed

theorem coordinate_sync_witness:
  "latitude (map_click \<lparr>lng = Fin (155 / 2), lat = Fin (25 / 2)\<rparr> typing_page) = ''12.50000''
   \<and> longitude (map_click \<lparr>lng = Fin (155 / 2), lat = Fin (25 / 2)\<rparr> typing_page) = ''77.50000''
   \<and> marker (map_click \<lparr>lng = Fin (155 / 2), lat = Fin (25 / 2)\<rparr> typing_page)
        = \<lparr>lng = Fin (155 / 2), lat = Fin (25 / 2)\<rparr>
   \<and> marker (dispatch (LatitudeInput ''12.5'') (typing_page\<lparr>longitude := ''77.5''\<rparr>))
        = \<lparr>lng = Fin (155 / 2), lat = Fin (25 / 2)\<rparr>
   \<and> latitude (dispatch (LatitudeInput ''12.5'') (typing_page\<lparr>longitude := ''77.5''\<rparr>)) = ''12.5''
   \<and> latitude (advance 500 (dispatch (LatitudeInput ''12.5'') (typing_page\<lparr>longitude := ''77.5''\<rparr>)))
        = ''12.50000''
   \<and> longitude (advance 500 (dispatch (LatitudeInput ''12.5'') (typing_page\<lparr>longitude := ''77.5''\<rparr>)))
        = ''77.50000''
   \<and> latitude (suggestion_click 0 (typing_page\<lparr>suggestions :=
          [\<lparr>place_name = ''MG Road'', center = \<lparr>lng = Fin (155 / 2), lat = Fin (25 / 2)\<rparr>,
            context_entries = None\<rparr>]\<rparr>)) = ''12.50000''
   \<and> longitude (advance 500 (dispatch (LongitudeInput ''77.5'') (typing_page\<lparr>latitude := ''12.5''\<rparr>)))
        = ''77.50000''"
proof -
  have v: "valid_pair (Fin (25 / 2)) (Fin (155 / 2))" by (simp add: valid_pair_def)
  define pa where "pa = typing_page\<lparr>longitude := ''77.5''\<rparr>"
  define pb where "pb = typing_page\<lparr>latitude := ''12.5''\<rparr>"
  define ps where "ps = typing_page\<lparr>suggestions :=
          [\<lparr>place_name = ''MG Road'', center = \<lparr>lng = Fin (155 / 2), lat = Fin (25 / 2)\<rparr>,
            context_entries = None\<rparr>]\<rparr>"
  have a: "parseFloat ''12.5'' = Fin (25 / 2) \<and> parseFloat (longitude pa) = Fin (155 / 2)"
    and na: "now pa + 500 \<le> 500"
    by (simp_all add: pa_def typing_page_def example_page_def parseFloat_examples)
  have b: "parseFloat (latitude pb) = Fin (25 / 2) \<and> parseFloat ''77.5'' = Fin (155 / 2)"
    and nb: "now pb + 500 \<le> 500"
    by (simp_all add: pb_def typing_page_def example_page_def parseFloat_examples)
  have s: "0 < length (suggestions ps)
      \<and> center (suggestions ps ! 0) = \<lparr>lng = Fin (155 / 2), lat = Fin (25 / 2)\<rparr>"
    by (simp add: ps_def)
  note t1 = coordinate_sync [OF v, of typing_page 0 "''12.5''"]
  note t2 = coordinate_sync [OF v, of pa 0 "''12.5''"]
  note t3 = coordinate_sync [OF v, of pb 0 "''77.5''"]
  note t4 = coordinate_sync [OF v, of ps 0 "''12.5''"]
  have c1: "latitude (map_click \<lparr>lng = Fin (155 / 2), lat = Fin (25 / 2)\<rparr> typing_page) = ''12.50000''
   \<and> longitude (map_click \<lparr>lng = Fin (155 / 2), lat = Fin (25 / 2)\<rparr> typing_page) = ''77.50000''
   \<and> marker (map_click \<lparr>lng = Fin (155 / 2), lat = Fin (25 / 2)\<rparr> typing_page)
        = \<lparr>lng = Fin (155 / 2), lat = Fin (25 / 2)\<rparr>"
    using t1 by (simp del: dispatch.simps add: toFixed_examples)
  have c2: "marker (dispatch (LatitudeInput ''12.5'') pa) = \<lparr>lng = Fin (155 / 2), lat = Fin (25 / 2)\<rparr>
   \<and> latitude (dispatch (LatitudeInput ''12.5'') pa) = ''12.5''
   \<and> latitude (advance 500 (dispatch (LatitudeInput ''12.5'') pa)) = ''12.50000''
   \<and> longitude (advance 500 (dispatch (LatitudeInput ''12.5'') pa)) = ''77.50000''"
    using t2 a na by (simp del: dispatch.simps add: toFixed_examples)
  have c3: "longitude (advance 500 (dispatch (LongitudeInput ''77.5'') pb)) = ''77.50000''"
    using t3 b nb by (simp del: dispatch.simps add: toFixed_examples)
  have c4: "latitude (suggestion_click 0 ps) = ''12.50000''"
    using t4 s by (simp del: dispatch.simps add: toFixed_examples)
  from c1 c2 c3 c4 show ?thesis unfolding pa_def pb_def ps_def by blast
qed

text \<open>
  Claim C2 as stated, for every input source, does not hold for text input. On a page
  whose fields hold 12 and 77, typing 12.3456789 into the latitude field moves the marker
  to the valid pair (12.3456789, 77), whose latitude rounds to 12.34568, but leaves the
  field as typed; a second edit 100 ms later, to 13.5, replaces the pending timer. The
  latitude field reads 12.3456789, then 13.5, and after the timer has fired 13.50000: it
  never shows 12.34568.
\<close>

theorem text_input_leaves_fields_unrounded:
  "marker (run [(0, LatitudeInput ''12.3456789'')] typing_page)
      = \<lparr>lng = Fin 77, lat = Fin (3474999680854737 / 281474976710656)\<rparr>
   \<and> valid_pair (Fin (3474999680854737 / 281474976710656)) (Fin 77)
   \<and> toFixed 5 (Fin (3474999680854737 / 281474976710656)) = ''12.34568''
   \<and> map latitude
        [run [(0, LatitudeInput ''12.3456789'')] typing_page,
         run [(0, LatitudeInput ''12.3456789''), (100, LatitudeInput ''13.5'')] typing_page,
         advance 600 (run [(0, LatitudeInput ''12.3456789''), (100, LatitudeInput ''13.5'')]
                        typing_page)]
      = [''12.3456789'', ''13.5'', ''13.50000'']"
proof -
  define p1 where "p1 = dispatch (LatitudeInput ''12.3456789'') (advance 0 typing_page)"
  define p2 where "p2 = dispatch (LatitudeInput ''13.5'') (advance 100 p1)"
  have q0: "geo_timeout typing_page = None \<or>
      (\<exists>due lngLat. geo_timeout typing_page = Some (due, lngLat) \<and> 0 < due)"
    by (simp add: typing_page_def example_page_def)
  have f0: "latitude (advance 0 typing_page) = ''12''" "longitude (advance 0 typing_page) = ''77''"
    "now (advance 0 typing_page) = 0"
    using advance_quiet(3,4,6) [OF q0] by (simp_all add: typing_page_def example_page_def)
  have t1: "coordinate_typed (LatitudeInput ''12.3456789'') (advance 0 typing_page)"
    by (simp add: f0 parseFloat_examples valid_examples)
  have tc1: "typed_coordinate p1 = \<lparr>lng = Fin 77, lat = Fin (3474999680854737 / 281474976710656)\<rparr>"
    unfolding p1_def
    by (simp del: dispatch.simps add: typed_coordinate_def text_fields_kept f0 parseFloat_examples)
  have m1: "marker p1 = \<lparr>lng = Fin 77, lat = Fin (3474999680854737 / 281474976710656)\<rparr>"
    using dispatch_typed(4) [OF t1] tc1 unfolding p1_def by simp
  have l1: "latitude p1 = ''12.3456789''" "longitude p1 = ''77''"
    unfolding p1_def by (simp_all del: dispatch.simps add: text_fields_kept f0)
  have g1: "geo_timeout p1 = Some (500, typed_coordinate p1)"
    unfolding p1_def using dispatch_typed(1) [OF t1] f0(3) by simp
  have n1: "now p1 = 0"
    unfolding p1_def using dispatch_typed(3) [OF t1] f0(3) by simp
  have q1: "geo_timeout p1 = None \<or>
      (\<exists>due lngLat. geo_timeout p1 = Some (due, lngLat) \<and> 100 < due)"
    using g1 by simp
  have f1: "latitude (advance 100 p1) = ''12.3456789''" "longitude (advance 100 p1) = ''77''"
    "now (advance 100 p1) = 100"
    using advance_quiet(3,4,6) [OF q1] l1 n1 by simp_all
  have t2: "coordinate_typed (LatitudeInput ''13.5'') (advance 100 p1)"
    by (simp add: f1 parseFloat_examples valid_examples)
  have l2: "latitude p2 = ''13.5''" "longitude p2 = ''77''"
    unfolding p2_def by (simp_all del: dispatch.simps add: text_fields_kept f1)
  have tc2: "typed_coordinate p2 = \<lparr>lng = Fin 77, lat = Fin (27 / 2)\<rparr>"
    by (simp add: typed_coordinate_def l2 parseFloat_examples)
  have g2: "geo_timeout p2 = Some (600, typed_coordinate p2)"
    unfolding p2_def using dispatch_typed(1) [OF t2] f1(3) by simp
  have l3: "latitude (advance 600 p2) = ''13.50000''"
    using advance_fires(3) [OF g2, of 600] by (simp add: tc2 toFixed_examples)
  have r1: "run [(0, LatitudeInput ''12.3456789'')] typing_page = p1"
    by (simp del: dispatch.simps add: p1_def)
  have r2: "run [(0, LatitudeInput ''12.3456789''), (100, LatitudeInput ''13.5'')] typing_page = p2"
    by (simp del: dispatch.simps add: p1_def p2_def)
  show ?thesis
    by (simp only: r1 r2 m1 l1 l2 l3 valid_examples toFixed_examples list.map simp_thms)
qed

section \<open>Section navigation and submission\<close>

text \<open>
  Claim C9. The step from the location section to the data section is blocked whenever
  the latitude or the longitude field is empty: an alert is shown and neither section
  changes its \<^verbatim>\<open>active\<close> class. When both fields are non-empty the location section
  becomes inactive and the data section active, without an alert.
\<close>

theorem nextSection_guard:
  "(latitude p = [] \<or> longitude p = [] \<longrightarrow>
      alerts (nextSection p) = alerts p @ [''Please provide valid coordinates before proceeding.'']
      \<and> locationSection_active (nextSection p) = locationSection_active p
      \<and> dataSection_active (nextSection p) = dataSection_active p)
   \<and> (latitude p \<noteq> [] \<and> longitude p \<noteq> [] \<longrightarrow>
      alerts (nextSection p) = alerts p
      \<and> \<not> locationSection_active (nextSection p)
      \<and> dataSection_active (nextSection p))"
  by (simp add: nextSection_def)

theorem nextSection_guard_witness:
  "alerts (nextSection example_page) = [''Please provide valid coordinates before proceeding.'']
   \<and> locationSection_active (nextSection example_page)
   \<and> \<not> dataSection_active (nextSection example_page)
   \<and> alerts (nextSection filled_page) = []
   \<and> \<not> locationSection_active (nextSection filled_page)
   \<and> dataSection_active (nextSection filled_page)"
  using nextSection_guard [of example_page] nextSection_guard [of filled_page]
  by (simp add: filled_page_def example_page_def)

lemma first_missing_requiredFields:
  "first_missing (requiredFields p) =
     (if latitude p = [] then Some ''Latitude''
      else if longitude p = [] then Some ''Longitude''
      else if fullName p = [] then Some ''Full Name''
      else if rooftopArea p = [] then Some ''Rooftop Area''
      else if openSpaceArea p = [] then Some ''Open Space Area''
      else None)"
  by (simp add: requiredFields_def)

lemma posted_valid:
  assumes "latitude p \<noteq> [] \<and> longitude p \<noteq> [] \<and> fullName p \<noteq> [] \<and> rooftopArea p \<noteq> []
      \<and> openSpaceArea p \<noteq> []"
  shows "posted p key =
           map input_value (filter (\<lambda>i. input_name i = key) (form_inputs (hidden_form (dataToSubmit p))))"
  using assms by (simp add: posted_def submitData_def first_missing_requiredFields Let_def)

lemma posted_conversions:
  assumes "latitude p \<noteq> [] \<and> longitude p \<noteq> [] \<and> fullName p \<noteq> [] \<and> rooftopArea p \<noteq> []
      \<and> openSpaceArea p \<noteq> []"
  shows "posted p ''rooftop_area'' = [Str (rooftop_area (rooftopArea p))]"
    and "posted p ''household_size'' = [Num (household_size (householdSize p))]"
    and "posted p ''open_space_area'' = [open_space_area (openSpaceArea p)]"
  by (simp_all add: posted_valid [OF assms] hidden_form_def dataToSubmit_def)

text \<open>
  Claim C3. When the latitude, the longitude, the full name, the rooftop area or the
  open-space area is empty, \<^verbatim>\<open>submitData\<close> creates and submits no form and shows one alert
  that names the first empty field, in that order. When all five are non-empty the
  hidden form is built, appended to the document and submitted, and no alert is shown.
\<close>

theorem submitData_validation:
  "(latitude p = [] \<or> longitude p = [] \<or> fullName p = [] \<or> rooftopArea p = []
      \<or> openSpaceArea p = [] \<longrightarrow>
      submitted (submitData p) = submitted p
      \<and> body_forms (submitData p) = body_forms p
      \<and> alerts (submitData p) = alerts p @
            [''Please provide '' @
              (if latitude p = [] then ''Latitude''
               else if longitude p = [] then ''Longitude''
               else if fullName p = [] then ''Full Name''
               else if rooftopArea p = [] then ''Rooftop Area''
               else ''Open Space Area'')])
   \<and> (latitude p \<noteq> [] \<and> longitude p \<noteq> [] \<and> fullName p \<noteq> [] \<and> rooftopArea p \<noteq> []
      \<and> openSpaceArea p \<noteq> [] \<longrightarrow>
      submitted (submitData p) = submitted p @ [hidden_form (dataToSubmit p)]
      \<and> body_forms (submitData p) = body_forms p @ [hidden_form (dataToSubmit p)]
      \<and> alerts (submitData p) = alerts p)"
  by (simp add: submitData_def first_missing_requiredFields Let_def)

theorem submitData_validation_witness:
  "submitted (submitData (filled_page\<lparr>fullName := []\<rparr>)) = []
   \<and> body_forms (submitData (filled_page\<lparr>fullName := []\<rparr>)) = []
   \<and> alerts (submitData (filled_page\<lparr>fullName := []\<rparr>)) = [''Please provide Full Name'']
   \<and> submitted (submitData filled_page) = [hidden_form (dataToSubmit filled_page)]
   \<and> alerts (submitData filled_page) = []"
  using submitData_validation [of "filled_page\<lparr>fullName := []\<rparr>"]
        submitData_validation [of filled_page]
  by (simp add: filled_page_def example_page_def)

text \<open>
  Claim C4. A submission that passes the validation submits one form, with method POST
  and action \<^verbatim>\<open>/submit_form\<close>, whose inputs are hidden and are named, in this order,
  name, location_name, user_lat, user_lon, roof_type, household_size, rooftop_area,
  open_space_area, property_type, existing_water_sources, budget_preference and
  intended_use: these twelve fields and no other.
\<close>

theorem submitData_payload:
  "latitude p \<noteq> [] \<and> longitude p \<noteq> [] \<and> fullName p \<noteq> [] \<and> rooftopArea p \<noteq> []
      \<and> openSpaceArea p \<noteq> [] \<longrightarrow>
   submitted (submitData p) = submitted p @ [hidden_form (dataToSubmit p)]
   \<and> form_method (hidden_form (dataToSubmit p)) = ''POST''
   \<and> form_action (hidden_form (dataToSubmit p)) = ''/submit_form''
   \<and> map input_name (form_inputs (hidden_form (dataToSubmit p))) =
        [''name'', ''location_name'', ''user_lat'', ''user_lon'', ''roof_type'',
         ''household_size'', ''rooftop_area'', ''open_space_area'', ''property_type'',
         ''existing_water_sources'', ''budget_preference'', ''intended_use'']
   \<and> (\<forall>i \<in> set (form_inputs (hidden_form (dataToSubmit p))). input_type i = ''hidden'')"
  by (simp add: submitData_def first_missing_requiredFields hidden_form_def dataToSubmit_def
        Let_def)

theorem submitData_payload_witness:
  "length (submitted (submitData filled_page)) = 1
   \<and> form_method (last (submitted (submitData filled_page))) = ''POST''
   \<and> form_action (last (submitted (submitData filled_page))) = ''/submit_form''
   \<and> map input_name (form_inputs (last (submitted (submitData filled_page)))) =
        [''name'', ''location_name'', ''user_lat'', ''user_lon'', ''roof_type'',
         ''household_size'', ''rooftop_area'', ''open_space_area'', ''property_type'',
         ''existing_water_sources'', ''budget_preference'', ''intended_use'']"
proof -
  have filled: "latitude filled_page \<noteq> [] \<and> longitude filled_page \<noteq> []
      \<and> fullName filled_page \<noteq> [] \<and> rooftopArea filled_page \<noteq> []
      \<and> openSpaceArea filled_page \<noteq> []"
    by (simp add: filled_page_def)
  have none: "submitted filled_page = []"
    by (simp add: filled_page_def example_page_def)
  from submitData_payload [of filled_page] filled none show ?thesis by simp
qed

section \<open>Geocoding\<close>

text \<open>
  Claim C7. When a reverse-geocoding response fails (the request is rejected or the body
  is not JSON) the page is left as it is except for one message on the console; when the
  body has no \<^verbatim>\<open>features\<close> member or an empty one the page is left exactly as it is. In
  both cases address, pincode, state, district and town keep their values. When there is
  at least one feature, the five fields are set from the first one: the address to its
  place name, pincode, district and town to its context text of the kinds \<^verbatim>\<open>postcode\<close>,
  \<^verbatim>\<open>district\<close> and \<^verbatim>\<open>place\<close>, and the state drop-down to the option that equals its
  context text of the kind \<^verbatim>\<open>region\<close> (to no option, which reads as the empty string,
  when none does). The context text of a kind is the text of the first context entry
  whose id starts with the kind; it is the empty string when the feature has no context
  and when no entry of its context is of the kind.
\<close>

theorem reverse_geocode_result:
  "updateFromMarker_resume (Rejected e) p =
      p\<lparr>console := console p @ [(''Reverse geocoding failed:'', e)]\<rparr>
   \<and> updateFromMarker_resume (Body None) p = p
   \<and> updateFromMarker_resume (Body (Some [])) p = p
   \<and> address (updateFromMarker_resume (Body (Some (f # fs))) p) = place_name f
   \<and> pincode (updateFromMarker_resume (Body (Some (f # fs))) p) = context_text f ''postcode''
   \<and> state (updateFromMarker_resume (Body (Some (f # fs))) p) =
        select_value (state_options p) (context_text f ''region'')
   \<and> district (updateFromMarker_resume (Body (Some (f # fs))) p) = context_text f ''district''
   \<and> town (updateFromMarker_resume (Body (Some (f # fs))) p) = context_text f ''place''
   \<and> select_value (state_options p) v = (if v \<in> set (state_options p) then v else [])
   \<and> (context_entries f = Some (pre @ c # post)
        \<and> (\<forall>d \<in> set pre. take (length kind) (entry_id d) \<noteq> kind)
        \<and> take (length kind) (entry_id c) = kind \<longrightarrow>
        context_text f kind = entry_text c)
   \<and> (context_entries f = None \<longrightarrow> context_text f kind = [])
   \<and> (context_entries f = Some cs
        \<and> (\<forall>d \<in> set cs. take (length kind) (entry_id d) \<noteq> kind) \<longrightarrow>
        context_text f kind = [])"
proof (intro conjI impI)
  show "context_text f kind = entry_text c"
    if "context_entries f = Some (pre @ c # post)
        \<and> (\<forall>d \<in> set pre. take (length kind) (entry_id d) \<noteq> kind)
        \<and> take (length kind) (entry_id c) = kind"
    using that context_text_first [of f pre c post kind] by blast
  show "context_text f kind = []" if "context_entries f = None"
    using that context_text_none [of f kind] by blast
  show "context_text f kind = []"
    if "context_entries f = Some cs
        \<and> (\<forall>d \<in> set cs. take (length kind) (entry_id d) \<noteq> kind)"
    using that context_text_none [of f kind] by blast
qed (simp_all add: updateFromMarker_resume_def select_value_def)

theorem reverse_geocode_result_witness:
  "address (updateFromMarker_resume (Body (Some [example_feature])) filled_page)
      = ''MG Road, Bengaluru, Karnataka 560001, India''
   \<and> pincode (updateFromMarker_resume (Body (Some [example_feature])) filled_page) = ''560001''
   \<and> state (updateFromMarker_resume (Body (Some [example_feature])) filled_page) = ''Karnataka''
   \<and> district (updateFromMarker_resume (Body (Some [example_feature])) filled_page) = []
   \<and> town (updateFromMarker_resume (Body (Some [example_feature])) filled_page) = ''Bengaluru''
   \<and> address (updateFromMarker_resume (Rejected FetchFailed) filled_page) = ''MG Road, Bengaluru''
   \<and> address (updateFromMarker_resume (Body (Some [])) filled_page) = ''MG Road, Bengaluru''"
proof -
  let ?place = "\<lparr>entry_id = ''place.101'', entry_text = ''Bengaluru''\<rparr>"
  let ?post = "\<lparr>entry_id = ''postcode.2'', entry_text = ''560001''\<rparr>"
  let ?region = "\<lparr>entry_id = ''region.29'', entry_text = ''Karnataka''\<rparr>"
  let ?place2 = "\<lparr>entry_id = ''place.7'', entry_text = ''Shivajinagar''\<rparr>"
  let ?country = "\<lparr>entry_id = ''country.1'', entry_text = ''India''\<rparr>"
  have ctx: "context_entries example_feature = Some [?place, ?post, ?region, ?place2, ?country]"
    by (simp add: example_feature_def)
  have pc: "context_text example_feature ''postcode'' = ''560001''"
    using reverse_geocode_result
            [of _ filled_page example_feature _ _ "[?place]" ?post "[?region, ?place2, ?country]"
               "''postcode''"]
    by (simp add: ctx)
  have tw: "context_text example_feature ''place'' = ''Bengaluru''"
    using reverse_geocode_result
            [of _ filled_page example_feature _ _ "[]" ?place "[?post, ?region, ?place2, ?country]"
               "''place''"]
    by (simp add: ctx)
  have rg: "context_text example_feature ''region'' = ''Karnataka''"
    using reverse_geocode_result
            [of _ filled_page example_feature _ _ "[?place, ?post]" ?region "[?place2, ?country]"
               "''region''"]
    by (simp add: ctx)
  have ds: "context_text example_feature ''district'' = []"
    using reverse_geocode_result
            [of _ filled_page example_feature _ _ _ _ _ "''district''"
               "[?place, ?post, ?region, ?place2, ?country]"]
    by (simp add: ctx)
  have opt: "''Karnataka'' \<in> set (state_options filled_page)"
    by (simp add: filled_page_def example_page_def indianStates_def)
  have ad: "address filled_page = ''MG Road, Bengaluru''"
    by (simp add: filled_page_def example_page_def)
  have pn: "place_name example_feature = ''MG Road, Bengaluru, Karnataka 560001, India''"
    by (simp add: example_feature_def)
  note main = reverse_geocode_result
            [of FetchFailed filled_page example_feature "[]" "''Karnataka''"]
  from main pc tw rg ds opt ad pn show ?thesis by simp
qed

text \<open>
  Claim C8. The debounced wrapper of the address search sends nothing itself; it sets a
  timer of 300 ms. When the timer fires, an input of fewer than three characters sends
  no request and hides the suggestion list; an input of at least three characters sends
  exactly one forward-geocoding request for that input. Hence a request is sent only for
  inputs of length at least three.
\<close>

theorem address_search_min_length:
  "network (debouncedAddressSearch input p) = network p
   \<and> search_timeout (debouncedAddressSearch input p) = Some (now p + 300, input)
   \<and> (length input < 3 \<longrightarrow>
        network (address_search input p) = network p
        \<and> suggestions_hidden (address_search input p))
   \<and> (3 \<le> length input \<longrightarrow>
        network (address_search input p) = network p @ [ForwardGeocode input])
   \<and> (network (address_search input p) \<noteq> network p \<longrightarrow> 3 \<le> length input)
   \<and> (length input < 3 \<and> now p + 300 \<le> t \<longrightarrow>
        network (fire_search t (debouncedAddressSearch input p)) = network p
        \<and> suggestions_hidden (fire_search t (debouncedAddressSearch input p)))"
  by (simp add: address_search_def debouncedAddressSearch_def debounce_def setTimeout_def
        fire_search_def)

theorem address_search_min_length_witness:
  "network (address_search ''MG'' (example_page\<lparr>suggestions_hidden := False\<rparr>)) = []
   \<and> suggestions_hidden (address_search ''MG'' (example_page\<lparr>suggestions_hidden := False\<rparr>))
   \<and> network (address_search ''MG Road'' example_page) = [ForwardGeocode ''MG Road'']
   \<and> network (fire_search 300
         (debouncedAddressSearch ''MG'' (example_page\<lparr>suggestions_hidden := False\<rparr>))) = []
   \<and> suggestions_hidden (fire_search 300
         (debouncedAddressSearch ''MG'' (example_page\<lparr>suggestions_hidden := False\<rparr>)))"
  using address_search_min_length
          [of "''MG''" "example_page\<lparr>suggestions_hidden := False\<rparr>" 300]
        address_search_min_length [of "''MG Road''" example_page 300]
  by (simp add: example_page_def)

section \<open>The converted payload values\<close>

lemma open_space_area_categories:
  "open_space_area ''none'' = Num (Fin 0)"
  "open_space_area ''small'' = Num (Fin 10)"
  "open_space_area ''medium'' = Num (Fin 60)"
  "open_space_area ''large'' = Num (Fin 150)"
  by (simp_all add: open_space_area_def get_property_def open_space_table_def)

lemma open_space_area_other:
  assumes "k \<notin> {''none'', ''small'', ''medium'', ''large''}"
    and "k \<notin> set Object_prototype_properties"
  shows "open_space_area k = Num (Fin 0)"
  using assms by (simp add: open_space_area_def get_property_def open_space_table_def)

text \<open>
  Claim C5 at the input \<^verbatim>\<open>constructor\<close>. The four categories map to 0, 10, 60 and 150
  and a string that names neither a category nor a property of \<^verbatim>\<open>Object.prototype\<close> maps
  to 0 (the two lemmas above). But the value is looked up in an object literal: a string
  that names a property of \<^verbatim>\<open>Object.prototype\<close> finds the inherited member, which is
  truthy, so that the fallback \<^verbatim>\<open>|| 0\<close> is not taken. For the string \<^verbatim>\<open>constructor\<close>,
  which is none of the four categories, the payload value is that inherited member and
  not 0.
\<close>

theorem open_space_area_inherited:
  "open_space_area ''constructor'' = Inherited ''constructor''
   \<and> open_space_area ''constructor'' \<noteq> Num (Fin 0)
   \<and> ''constructor'' \<notin> {''none'', ''small'', ''medium'', ''large''}"
  by (simp add: open_space_area_def get_property_def open_space_table_def
        Object_prototype_properties_def)

text \<open>The exact product 5000 * 0.092903 = 464.515 is a tie between 464.51 and 464.52; the
  binary64 product lies below it.\<close>

lemma rooftop_area_binary: "rooftop_area ''5000'' = ''464.51''"
  by (simp add: rooftop_area_def sqft_to_sqm_def parse_eval fl_eval toFixed_eval)




text \<open>
  Claim C10. The household size of the payload is 0 for an empty field; otherwise it is
  what \<^verbatim>\<open>parseInt\<close> reads from the part of the field before its first \<^verbatim>\<open>-\<close>, and 0 when
  that part does not parse. A range such as 2-4 gives 2. In particular, when the field
  is a run of decimal digits of value below 2^53, alone or followed by \<^verbatim>\<open>-\<close> and
  anything, the household size is exactly that value. A submission that passes the
  validation posts this number, computed from the household-size field, as the one value
  of the key \<^verbatim>\<open>household_size\<close>: with 2-4 in the field it posts 2, with an empty field 0.
\<close>

theorem household_size_parsed:
  "household_size [] = Fin 0
   \<and> household_size ''2-4'' = Fin 2
   \<and> (parseInt (takeWhile (\<lambda>c. c \<noteq> CHR ''-'') s) = NaN \<longrightarrow> household_size s = Fin 0)
   \<and> (parseInt (takeWhile (\<lambda>c. c \<noteq> CHR ''-'') s) \<noteq> NaN \<longrightarrow>
        household_size s = parseInt (takeWhile (\<lambda>c. c \<noteq> CHR ''-'') s))
   \<and> (ds \<noteq> [] \<and> (\<forall>c \<in> set ds. is_digit c) \<and> radix_value 10 digit_val ds < 2 ^ 53 \<longrightarrow>
        household_size ds = Fin (of_nat (radix_value 10 digit_val ds))
        \<and> household_size (ds @ CHR ''-'' # rest) = Fin (of_nat (radix_value 10 digit_val ds)))
   \<and> (latitude p \<noteq> [] \<and> longitude p \<noteq> [] \<and> fullName p \<noteq> [] \<and> rooftopArea p \<noteq> []
        \<and> openSpaceArea p \<noteq> [] \<longrightarrow>
        posted p ''household_size'' = [Num (household_size (householdSize p))])
   \<and> (latitude p \<noteq> [] \<and> longitude p \<noteq> [] \<and> fullName p \<noteq> [] \<and> rooftopArea p \<noteq> []
        \<and> openSpaceArea p \<noteq> [] \<and> householdSize p = ''2-4'' \<longrightarrow>
        posted p ''household_size'' = [Num (Fin 2)])
   \<and> (latitude p \<noteq> [] \<and> longitude p \<noteq> [] \<and> fullName p \<noteq> [] \<and> rooftopArea p \<noteq> []
        \<and> openSpaceArea p \<noteq> [] \<and> householdSize p = [] \<longrightarrow>
        posted p ''household_size'' = [Num (Fin 0)])"
proof (intro conjI impI)
  show e0: "household_size [] = Fin 0"
    by (simp add: household_size_eq parse_eval fl_eval num_or_def)
  show e2: "household_size ''2-4'' = Fin 2"
    by (simp add: household_size_eq parse_eval fl_eval num_or_def)
  show "household_size s = Fin 0" if "parseInt (takeWhile (\<lambda>c. c \<noteq> CHR ''-'') s) = NaN"
  proof (cases "s = []")
    case True
    then show ?thesis by (simp add: household_size_eq parse_eval fl_eval num_or_def)
  next
    case False
    then show ?thesis using that by (simp add: household_size_eq str_or_def num_or_def)
  qed
  show "household_size s = parseInt (takeWhile (\<lambda>c. c \<noteq> CHR ''-'') s)"
    if "parseInt (takeWhile (\<lambda>c. c \<noteq> CHR ''-'') s) \<noteq> NaN"
  proof -
    have "s \<noteq> []" using that parseInt_empty by auto
    then show ?thesis using that by (auto simp add: household_size_eq str_or_def num_or_def)
  qed
  show "posted p ''household_size'' = [Num (household_size (householdSize p))]"
    if "latitude p \<noteq> [] \<and> longitude p \<noteq> [] \<and> fullName p \<noteq> [] \<and> rooftopArea p \<noteq> []
        \<and> openSpaceArea p \<noteq> []"
    using posted_conversions(2) [OF that] .
  show "posted p ''household_size'' = [Num (Fin 2)]"
    if h: "latitude p \<noteq> [] \<and> longitude p \<noteq> [] \<and> fullName p \<noteq> [] \<and> rooftopArea p \<noteq> []
        \<and> openSpaceArea p \<noteq> [] \<and> householdSize p = ''2-4''"
  proof -
    from h have "latitude p \<noteq> [] \<and> longitude p \<noteq> [] \<and> fullName p \<noteq> [] \<and> rooftopArea p \<noteq> []
        \<and> openSpaceArea p \<noteq> []" by blast
    from posted_conversions(2) [OF this] h e2 show ?thesis by simp
  qed
  show "posted p ''household_size'' = [Num (Fin 0)]"
    if h: "latitude p \<noteq> [] \<and> longitude p \<noteq> [] \<and> fullName p \<noteq> [] \<and> rooftopArea p \<noteq> []
        \<and> openSpaceArea p \<noteq> [] \<and> householdSize p = []"
  proof -
    from h have "latitude p \<noteq> [] \<and> longitude p \<noteq> [] \<and> fullName p \<noteq> [] \<and> rooftopArea p \<noteq> []
        \<and> openSpaceArea p \<noteq> []" by blast
    from posted_conversions(2) [OF this] h e0 show ?thesis by simp
  qed
next
  assume a: "ds \<noteq> [] \<and> (\<forall>c \<in> set ds. is_digit c) \<and> radix_value 10 digit_val ds < 2 ^ 53"
  let ?n = "radix_value 10 digit_val ds"
  have nodash: "\<forall>c \<in> set ds. c \<noteq> CHR ''-''" using a digit_not_special(2) by blast
  have p: "parseInt ds = Fin (of_nat ?n)"
    using a parseInt_digits [of ds] fl_small_nat [of ?n] by simp
  have t1: "takeWhile (\<lambda>c. c \<noteq> CHR ''-'') ds = ds"
    using nodash by (simp add: takeWhile_eq_all_conv)
  have t2: "takeWhile (\<lambda>c. c \<noteq> CHR ''-'') (ds @ CHR ''-'' # rest) = ds"
    using nodash by (simp add: takeWhile_append)
  show "household_size ds = Fin (of_nat ?n)"
    using a by (auto simp add: household_size_eq str_or_def t1 p num_or_def)
  show "household_size (ds @ CHR ''-'' # rest) = Fin (of_nat ?n)"
    using a by (auto simp add: household_size_eq str_or_def t2 p num_or_def)
qed

theorem household_size_parsed_witness:
  "posted filled_page ''household_size'' = [Num (Fin 2)]
   \<and> posted (filled_page\<lparr>householdSize := []\<rparr>) ''household_size'' = [Num (Fin 0)]
   \<and> household_size ''abc'' = Fin 0 \<and> household_size ''12'' = Fin 12
   \<and> household_size ''5-6'' = Fin 5"
proof -
  have nan: "parseInt (takeWhile (\<lambda>c. c \<noteq> CHR ''-'') ''abc'') = NaN"
    by (simp add: parse_eval)
  have dg: "''5'' \<noteq> [] \<and> (\<forall>c \<in> set ''5''. is_digit c) \<and> radix_value 10 digit_val ''5'' < 2 ^ 53"
    by (simp add: parse_eval)
  have nn: "parseInt (takeWhile (\<lambda>c. c \<noteq> CHR ''-'') ''12'') \<noteq> NaN"
    by (simp add: parse_eval fl_eval)
  have v: "parseInt ''12'' = Fin 12" by (simp add: parse_eval fl_eval)
  have r: "radix_value 10 digit_val ''5'' = 5" by (simp add: parse_eval)
  have f2: "latitude filled_page \<noteq> [] \<and> longitude filled_page \<noteq> [] \<and> fullName filled_page \<noteq> []
      \<and> rooftopArea filled_page \<noteq> [] \<and> openSpaceArea filled_page \<noteq> []
      \<and> householdSize filled_page = ''2-4''"
    by (simp add: filled_page_def example_page_def)
  have f0: "latitude (filled_page\<lparr>householdSize := []\<rparr>) \<noteq> []
      \<and> longitude (filled_page\<lparr>householdSize := []\<rparr>) \<noteq> []
      \<and> fullName (filled_page\<lparr>householdSize := []\<rparr>) \<noteq> []
      \<and> rooftopArea (filled_page\<lparr>householdSize := []\<rparr>) \<noteq> []
      \<and> openSpaceArea (filled_page\<lparr>householdSize := []\<rparr>) \<noteq> []
      \<and> householdSize (filled_page\<lparr>householdSize := []\<rparr>) = []"
    by (simp add: filled_page_def example_page_def)
  from household_size_parsed [of "''abc''" "''5''" "''6''" filled_page] f2
  have a: "posted filled_page ''household_size'' = [Num (Fin 2)]" by blast
  from household_size_parsed [of "''abc''" "''5''" "''6''" "filled_page\<lparr>householdSize := []\<rparr>"] f0
  have b: "posted (filled_page\<lparr>householdSize := []\<rparr>) ''household_size'' = [Num (Fin 0)]"
    by blast
  from household_size_parsed [of "''abc''" "''5''" "''6''" filled_page] nan dg r
       household_size_parsed [of "''12''" "''5''" "''6''" filled_page] nn v
  have c: "household_size ''abc'' = Fin 0 \<and> household_size ''12'' = Fin 12
   \<and> household_size ''5-6'' = Fin 5" by simp
  from a b c show ?thesis by blast
qed

end
